theory Spec2Isabelle
  imports Main "HOL-Library.Sublist"
begin

text \<open>
  A model of \<^verbatim>\<open>src/scraper/scraper.py\<close>: the tier classifier, the two scrapers, the
  labelling function and the script. Requests are answered by functions passed in;
  exceptions are values of a sum type. Writing the CSV files, sleeping between requests
  and printing are left out, and log lines are kept for the bankruptcy scraper only.
\<close>

section \<open>Industry tier classifier\<close>

text \<open>
  \<^verbatim>\<open>SIC_RANGES\<close> is a list of pairs of a Python \<^verbatim>\<open>range(lo, hi)\<close> and a tier. A range is
  kept as its two bounds; an integer is \<^verbatim>\<open>in range(lo, hi)\<close> exactly when \<open>lo \<le> x < hi\<close>.
\<close>

type_synonym py_range = "int \<times> int"

definition in_range :: "int \<Rightarrow> py_range \<Rightarrow> bool" where
  "in_range x r = (fst r \<le> x \<and> x < snd r)"

definition SIC_RANGES :: "(py_range \<times> int) list" where
  "SIC_RANGES =
     [((100, 1000), 0),
      ((2000, 2800), 1),
      ((2800, 3600), 1),
      ((3000, 3600), 3),
      ((3600, 3800), 2),
      ((3800, 4000), 2),
      ((5000, 5200), 3),
      ((5200, 5400), 4),
      ((5400, 5800), 4),
      ((5900, 6000), 4)]"

text \<open>
  The \<^verbatim>\<open>for sic_range, tier in SIC_RANGES\<close> loop of \<^verbatim>\<open>sic_to_tier\<close>: return the tier of the
  first range holding the code, and 2 when the list is exhausted.
\<close>

fun scan_ranges :: "(py_range \<times> int) list \<Rightarrow> int \<Rightarrow> int" where
  "scan_ranges [] sic = 2"
| "scan_ranges ((sic_range, tier) # rest) sic =
     (if in_range sic sic_range then tier else scan_ranges rest sic)"

definition sic_to_tier :: "int \<Rightarrow> int" where
  "sic_to_tier sic = scan_ranges SIC_RANGES sic"

section \<open>Python values and builtins\<close>

text \<open>
  Exceptions are values. \<open>HTTPError\<close> carries the status code; \<open>RequestException\<close> stands
  for every other failure of \<^verbatim>\<open>session.get\<close> (connection error, timeout).
\<close>

datatype error =
    HTTPError nat
  | RequestException
  | JSONDecodeError
  | AttributeError
  | TypeError
  | ValueError
  | KeyError string
  | ZeroDivisionError

definition and_then :: "error + 'a \<Rightarrow> ('a \<Rightarrow> error + 'b) \<Rightarrow> error + 'b" where
  "and_then m f = (case m of Inl e \<Rightarrow> Inl e | Inr x \<Rightarrow> f x)"

text \<open>A comprehension or \<^verbatim>\<open>apply\<close> whose body may raise: the first exception ends it.\<close>

fun collect :: "('a \<Rightarrow> error + 'b) \<Rightarrow> 'a list \<Rightarrow> error + 'b list" where
  "collect f [] = Inr []"
| "collect f (x # xs) =
     (case f x of
        Inl e \<Rightarrow> Inl e
      | Inr y \<Rightarrow> (case collect f xs of Inl e \<Rightarrow> Inl e | Inr ys \<Rightarrow> Inr (y # ys)))"

subsection \<open>Strings\<close>

text \<open>
  A \<^verbatim>\<open>str\<close> is a list of characters; the model covers ASCII text. \<^verbatim>\<open>str.upper\<close> maps
  \<^verbatim>\<open>a\<close>..\<^verbatim>\<open>z\<close> to \<^verbatim>\<open>A\<close>..\<^verbatim>\<open>Z\<close>, and \<^verbatim>\<open>str.strip\<close> removes the ASCII characters for
  which \<^verbatim>\<open>str.isspace\<close> holds (codes 9 to 13 and 28 to 32) from both ends. Characters
  beyond ASCII are left alone by both: their case mapping and the whitespace beyond
  ASCII (such as the codes 0x85 and 0xA0) are outside the model.
\<close>

definition is_space :: "char \<Rightarrow> bool" where
  "is_space c = (let n = (of_char c :: nat) in (9 \<le> n \<and> n \<le> 13) \<or> (28 \<le> n \<and> n \<le> 32))"

definition upper_char :: "char \<Rightarrow> char" where
  "upper_char c =
     (let n = (of_char c :: nat) in if 97 \<le> n \<and> n \<le> 122 then char_of (n - 32) else c)"

definition upper :: "string \<Rightarrow> string" where
  "upper s = map upper_char s"

definition strip :: "string \<Rightarrow> string" where
  "strip s = rev (dropWhile is_space (rev (dropWhile is_space s)))"

text \<open>\<^verbatim>\<open>s.startswith(p)\<close> and the operator \<^verbatim>\<open>sub in s\<close> on strings.\<close>

fun startswith :: "string \<Rightarrow> string \<Rightarrow> bool" where
  "startswith s [] = True"
| "startswith [] (p # ps) = False"
| "startswith (c # cs) (p # ps) = (c = p \<and> startswith cs ps)"

fun py_in :: "string \<Rightarrow> string \<Rightarrow> bool" where
  "py_in sub [] = (sub = [])"
| "py_in sub (c # cs) = (startswith (c # cs) sub \<or> py_in sub cs)"

text \<open>
  \<^verbatim>\<open>s.count(sub)\<close> for a non-empty \<^verbatim>\<open>sub\<close>: occurrences that do not overlap, from the
  left. The first argument counts the characters still covered by the last occurrence.
\<close>

fun count_from :: "nat \<Rightarrow> string \<Rightarrow> string \<Rightarrow> nat" where
  "count_from k sub [] = 0"
| "count_from k sub (c # cs) =
     (if 0 < k then count_from (k - 1) sub cs
      else if startswith (c # cs) sub then Suc (count_from (length sub - 1) sub cs)
      else count_from 0 sub cs)"

definition str_count :: "string \<Rightarrow> string \<Rightarrow> nat" where
  "str_count s sub = (if sub = [] then Suc (length s) else count_from 0 sub s)"

text \<open>\<^verbatim>\<open>s.zfill(width)\<close>: zeros go after a leading sign.\<close>

definition zfill :: "nat \<Rightarrow> string \<Rightarrow> string" where
  "zfill width s =
     (if width \<le> length s then s
      else
        (let pad = replicate (width - length s) (CHR ''0'') in
         case s of
           [] \<Rightarrow> pad
         | c # cs \<Rightarrow> if c = CHR ''+'' \<or> c = CHR ''-'' then c # pad @ cs else pad @ s))"

text \<open>\<^verbatim>\<open>xs[:n]\<close>: a negative bound counts from the end.\<close>

definition slice_upto :: "int \<Rightarrow> 'a list \<Rightarrow> 'a list" where
  "slice_upto n xs = (if 0 \<le> n then take (nat n) xs else take (length xs - nat (- n)) xs)"

subsection \<open>Decoded JSON documents\<close>

text \<open>
  What \<^verbatim>\<open>resp.json()\<close> returns: \<^verbatim>\<open>None\<close>, a bool, an int, a str, a list or a dict (in
  insertion order; a lookup takes the first entry of a key). JSON numbers with a
  fraction are not part of the model.
\<close>

datatype json =
    JNull
  | JBool bool
  | JNum int
  | JStr string
  | JArr "json list"
  | JObj "(string \<times> json) list"

fun truthy :: "json \<Rightarrow> bool" where
  "truthy JNull = False"
| "truthy (JBool b) = b"
| "truthy (JNum n) = (n \<noteq> 0)"
| "truthy (JStr s) = (s \<noteq> [])"
| "truthy (JArr xs) = (xs \<noteq> [])"
| "truthy (JObj kvs) = (kvs \<noteq> [])"

text \<open>\<^verbatim>\<open>d.get(key, default)\<close>; only a dict has the method.\<close>

definition py_get :: "json \<Rightarrow> string \<Rightarrow> json \<Rightarrow> error + json" where
  "py_get obj key dflt =
     (case obj of
        JObj kvs \<Rightarrow> Inr (case map_of kvs key of Some v \<Rightarrow> v | None \<Rightarrow> dflt)
      | _ \<Rightarrow> Inl AttributeError)"

text \<open>\<^verbatim>\<open>c[key]\<close> with a string key.\<close>

definition py_getitem :: "json \<Rightarrow> string \<Rightarrow> error + json" where
  "py_getitem obj key =
     (case obj of
        JObj kvs \<Rightarrow> (case map_of kvs key of Some v \<Rightarrow> Inr v | None \<Rightarrow> Inl (KeyError key))
      | _ \<Rightarrow> Inl TypeError)"

text \<open>\<^verbatim>\<open>d.items()\<close>.\<close>

definition py_items :: "json \<Rightarrow> error + (string \<times> json) list" where
  "py_items obj = (case obj of JObj kvs \<Rightarrow> Inr kvs | _ \<Rightarrow> Inl AttributeError)"

text \<open>
  \<^verbatim>\<open>int(x)\<close>. Around the number an ASCII string may have the whitespace of the C
  locale only (codes 9 to 13 and 32, fewer than \<^verbatim>\<open>str.strip\<close> removes); the number may
  carry one sign and consists of decimal digits with single underscores between them.
  The interpreter's limit on the number of digits is not modelled.
\<close>

definition is_c_space :: "char \<Rightarrow> bool" where
  "is_c_space c = (let n = (of_char c :: nat) in (9 \<le> n \<and> n \<le> 13) \<or> n = 32)"

definition is_digit :: "char \<Rightarrow> bool" where
  "is_digit c = (let n = (of_char c :: nat) in 48 \<le> n \<and> n \<le> 57)"

definition digit_val :: "char \<Rightarrow> int" where
  "digit_val c = int (of_char c) - 48"

fun int_body :: "bool \<Rightarrow> string \<Rightarrow> bool" where
  "int_body after_digit [] = after_digit"
| "int_body after_digit (c # cs) =
     (if is_digit c then int_body True cs
      else if c = CHR ''_'' \<and> after_digit then int_body False cs
      else False)"

definition digits_val :: "string \<Rightarrow> int" where
  "digits_val s = foldl (\<lambda>acc c. 10 * acc + digit_val c) 0 (filter is_digit s)"

definition int_of_str :: "string \<Rightarrow> int option" where
  "int_of_str s =
     (let t = rev (dropWhile is_c_space (rev (dropWhile is_c_space s)));
          neg = (t \<noteq> [] \<and> hd t = CHR ''-'');
          body = (if t \<noteq> [] \<and> (hd t = CHR ''-'' \<or> hd t = CHR ''+'') then tl t else t)
      in if int_body False body
         then Some (if neg then - digits_val body else digits_val body)
         else None)"

fun py_int :: "json \<Rightarrow> error + int" where
  "py_int JNull = Inl TypeError"
| "py_int (JBool b) = Inr (if b then 1 else 0)"
| "py_int (JNum n) = Inr n"
| "py_int (JStr s) = (case int_of_str s of None \<Rightarrow> Inl ValueError | Some n \<Rightarrow> Inr n)"
| "py_int (JArr xs) = Inl TypeError"
| "py_int (JObj kvs) = Inl TypeError"

text \<open>\<^verbatim>\<open>forms.count(s)\<close> and \<^verbatim>\<open>len(forms)\<close>: a list and a str have both.\<close>

fun py_count :: "json \<Rightarrow> string \<Rightarrow> error + nat" where
  "py_count (JArr xs) s = Inr (length (filter (\<lambda>x. x = JStr s) xs))"
| "py_count (JStr t) s = Inr (str_count t s)"
| "py_count JNull s = Inl AttributeError"
| "py_count (JBool b) s = Inl AttributeError"
| "py_count (JNum n) s = Inl AttributeError"
| "py_count (JObj kvs) s = Inl AttributeError"

fun py_len :: "json \<Rightarrow> error + nat" where
  "py_len (JArr xs) = Inr (length xs)"
| "py_len (JStr t) = Inr (length t)"
| "py_len (JObj kvs) = Inr (length kvs)"
| "py_len JNull = Inl TypeError"
| "py_len (JBool b) = Inl TypeError"
| "py_len (JNum n) = Inl TypeError"

text \<open>
  \<^verbatim>\<open>str(x)\<close>: a str is itself, every other value is shown as \<^verbatim>\<open>repr\<close> shows it.
\<close>

fun digits10 :: "nat \<Rightarrow> string" where
  "digits10 n =
     (if n < 10 then [char_of (48 + n)] else digits10 (n div 10) @ [char_of (48 + n mod 10)])"

definition str_of_int :: "int \<Rightarrow> string" where
  "str_of_int i = (if i < 0 then CHR ''-'' # digits10 (nat (- i)) else digits10 (nat i))"

definition hex_digit :: "nat \<Rightarrow> char" where
  "hex_digit n = (if n < 10 then char_of (48 + n) else char_of (87 + n))"

definition repr_char :: "char \<Rightarrow> char \<Rightarrow> string" where
  "repr_char quote c =
     (let n = (of_char c :: nat) in
      if c = quote \<or> c = CHR 0x5C then [CHR 0x5C, c]
      else if n = 9 then [CHR 0x5C, CHR ''t'']
      else if n = 10 then [CHR 0x5C, CHR ''n'']
      else if n = 13 then [CHR 0x5C, CHR ''r'']
      else if n < 32 \<or> n = 127
        then [CHR 0x5C, CHR ''x'', hex_digit (n div 16), hex_digit (n mod 16)]
      else [c])"

definition repr_str :: "string \<Rightarrow> string" where
  "repr_str s =
     (let quote = (if CHR 0x27 \<in> set s \<and> CHR 0x22 \<notin> set s then CHR 0x22 else CHR 0x27)
      in quote # concat (map (repr_char quote) s) @ [quote])"

fun join :: "string \<Rightarrow> string list \<Rightarrow> string" where
  "join sep [] = []"
| "join sep [x] = x"
| "join sep (x # y # ys) = x @ sep @ join sep (y # ys)"

primrec py_repr :: "json \<Rightarrow> string" where
  "py_repr JNull = ''None''"
| "py_repr (JBool b) = (if b then ''True'' else ''False'')"
| "py_repr (JNum n) = str_of_int n"
| "py_repr (JStr s) = repr_str s"
| "py_repr (JArr xs) = ''['' @ join '', '' (map py_repr xs) @ '']''"
| "py_repr (JObj kvs) =
     ''{'' @ join '', '' (map (\<lambda>kv. repr_str (fst kv) @ '': '' @ snd kv)
                              (map (map_prod id py_repr) kvs)) @ ''}''"

definition py_str :: "json \<Rightarrow> string" where
  "py_str v = (case v of JStr s \<Rightarrow> s | _ \<Rightarrow> py_repr v)"

subsection \<open>HTTP\<close>

text \<open>
  A response has a status and a body. \<^verbatim>\<open>raise_for_status\<close> raises for the client and
  server error codes. The body of a JSON endpoint is the decoded document, or nothing
  when \<^verbatim>\<open>resp.json()\<close> cannot decode it.
\<close>

record 'b response =
  status :: nat
  body :: 'b

definition raise_for_status :: "'b response \<Rightarrow> error + 'b response" where
  "raise_for_status resp =
     (if 400 \<le> status resp \<and> status resp < 600 then Inl (HTTPError (status resp))
      else Inr resp)"

definition resp_json :: "json option response \<Rightarrow> error + json" where
  "resp_json resp = (case body resp of None \<Rightarrow> Inl JSONDecodeError | Some v \<Rightarrow> Inr v)"

section \<open>Bankruptcy label scraper\<close>

text \<open>
  What the scraper reads of a parsed listing page: the \<^verbatim>\<open>div\<close> with id \<^verbatim>\<open>mw-pages\<close>, if the
  page has one, as the list of its \<^verbatim>\<open>a\<close> elements, each given by its text nodes.
  \<^verbatim>\<open>get_text(strip=True)\<close> strips every text node, drops the empty ones and joins the rest.
\<close>

type_synonym link = "string list"

record soup =
  mw_pages :: "link list option"

definition get_text :: "link \<Rightarrow> string" where
  "get_text l = concat (filter (\<lambda>t. t \<noteq> []) (map strip l))"

record bankruptcy =
  b_name :: string
  b_year :: int
  b_disrupted :: int
  b_source :: string

datatype level = INFO | WARNING

datatype message =
    Scraping int
  | HttpSkipping nat int
  | FailedSkipping int error
  | NoMwPages int
  | CompaniesFound nat int
  | SavedRecords nat

type_synonym log = "(level \<times> message) list"

definition year_records :: "int \<Rightarrow> link list \<Rightarrow> bankruptcy list" where
  "year_records year links =
     map (\<lambda>n. \<lparr>b_name = n, b_year = year, b_disrupted = 1, b_source = ''wikipedia_ch11''\<rparr>)
         (filter (\<lambda>n. n \<noteq> []) (map get_text links))"

text \<open>
  The \<^verbatim>\<open>for year in years\<close> loop of \<^verbatim>\<open>scrape_wikipedia_bankruptcies\<close>, with the records
  and the log lines collected so far. The first argument answers \<^verbatim>\<open>session.get\<close> for the
  page of a year.
\<close>

fun scrape_years ::
  "(int \<Rightarrow> error + soup response) \<Rightarrow> int list \<Rightarrow> bankruptcy list \<Rightarrow> log \<Rightarrow> bankruptcy list \<times> log"
where
  "scrape_years get [] all_records lg = (all_records, lg)"
| "scrape_years get (year # rest) all_records lg =
     (let lg1 = lg @ [(INFO, Scraping year)] in
      case and_then (get year) raise_for_status of
        Inl (HTTPError code) \<Rightarrow>
          scrape_years get rest all_records (lg1 @ [(WARNING, HttpSkipping code year)])
      | Inl e \<Rightarrow>
          scrape_years get rest all_records (lg1 @ [(WARNING, FailedSkipping year e)])
      | Inr resp \<Rightarrow>
          (case mw_pages (body resp) of
             None \<Rightarrow> scrape_years get rest all_records (lg1 @ [(WARNING, NoMwPages year)])
           | Some links \<Rightarrow>
               (let found = year_records year links in
                scrape_years get rest (all_records @ found)
                  (lg1 @ [(INFO, CompaniesFound (length found) year)]))))"

definition scrape_wikipedia_bankruptcies ::
  "(int \<Rightarrow> error + soup response) \<Rightarrow> int list option \<Rightarrow> bankruptcy list \<times> log"
where
  "scrape_wikipedia_bankruptcies get years =
     (let ys = (case years of None \<Rightarrow> [2018..2025] | Some l \<Rightarrow> l);
          (df, lg) = scrape_years get ys [] []
      in (df, lg @ [(INFO, SavedRecords (length df))]))"

definition builld_disrupted_name_set ::
  "(int \<Rightarrow> error + soup response) \<Rightarrow> int list option \<Rightarrow> string set \<times> log"
where
  "builld_disrupted_name_set get years =
     (let (df, lg) = scrape_wikipedia_bankruptcies get years
      in (if df = [] then {} else set (map (\<lambda>r. strip (upper (b_name r))) df), lg))"

section \<open>Name matcher\<close>

text \<open>
  The inner function \<^verbatim>\<open>is_disrupted\<close> of \<^verbatim>\<open>label_companies\<close>, with the set it closes over
  as its first argument. A cell that is not a str has no \<^verbatim>\<open>upper\<close>.
\<close>

definition is_disrupted :: "string set \<Rightarrow> json \<Rightarrow> error + int" where
  "is_disrupted disrupted_names name =
     (case name of
        JStr s \<Rightarrow>
          (let name_up = strip (upper s)
           in Inr (if \<exists>d\<in>disrupted_names. py_in d name_up \<or> py_in name_up d then 1 else 0))
      | _ \<Rightarrow> Inl AttributeError)"

subsection \<open>The sum of a column\<close>

text \<open>
  What \<^verbatim>\<open>Series.sum()\<close> returns depends on the dtype of the column: the sum of an object
  column is computed on Python objects, starting from the int 0; the sum of an int64 or
  float64 column is a numpy number; the sum of an empty column of strings is the empty
  string. The value of a numpy float is not kept.
\<close>

datatype dtype = Object | Int64 | Float64 | Str

datatype scalar = PyInt int | NpInt64 int | NpFloat64 | PyStr string

fun series_sum :: "dtype \<Rightarrow> int list \<Rightarrow> scalar" where
  "series_sum Object xs = PyInt (sum_list xs)"
| "series_sum Int64 xs = NpInt64 (sum_list xs)"
| "series_sum Float64 xs = NpFloat64"
| "series_sum Str xs = PyStr []"

text \<open>
  \<^verbatim>\<open>k * x\<close> for an int \<^verbatim>\<open>k\<close>, and \<^verbatim>\<open>x / n\<close> for an int \<^verbatim>\<open>n\<close>. Dividing a Python int by
  zero raises; dividing a numpy number by zero gives \<^verbatim>\<open>nan\<close> or \<^verbatim>\<open>inf\<close> and a warning, and
  does not raise; a string cannot be divided. The quotient is a float that only goes
  into a log line, so the model keeps no more than whether the division raises.
\<close>

fun py_mul :: "int \<Rightarrow> scalar \<Rightarrow> scalar" where
  "py_mul k (PyInt a) = PyInt (k * a)"
| "py_mul k (NpInt64 a) = NpInt64 (k * a)"
| "py_mul k NpFloat64 = NpFloat64"
| "py_mul k (PyStr s) = PyStr (concat (replicate (nat k) s))"

fun py_truediv :: "scalar \<Rightarrow> int \<Rightarrow> error + unit" where
  "py_truediv (PyInt a) n = (if n = 0 then Inl ZeroDivisionError else Inr ())"
| "py_truediv (NpInt64 a) n = Inr ()"
| "py_truediv NpFloat64 n = Inr ()"
| "py_truediv (PyStr s) n = Inl TypeError"

section \<open>SEC EDGAR scraper\<close>

record ticker_row =
  row_cik :: string
  row_ticker :: json
  row_name :: json

definition ticker_record :: "json \<Rightarrow> error + ticker_row" where
  "ticker_record c =
     and_then (py_getitem c ''cik_str'') (\<lambda>cik_str.
     and_then (py_getitem c ''ticker'') (\<lambda>tk.
     and_then (py_getitem c ''title'') (\<lambda>title.
       Inr \<lparr>row_cik = zfill 10 (py_str cik_str), row_ticker = tk, row_name = title\<rparr>)))"

definition fetch_all_tickers ::
  "(error + json option response) \<Rightarrow> int \<Rightarrow> error + ticker_row list"
where
  "fetch_all_tickers get max_companies =
     and_then get (\<lambda>resp.
     and_then (raise_for_status resp) (\<lambda>resp.
     and_then (resp_json resp) (\<lambda>data.
     and_then (py_items data) (\<lambda>items.
       collect (\<lambda>(i, c). ticker_record c) (slice_upto max_companies items)))))"

text \<open>
  The dict built by \<^verbatim>\<open>fetch_company_metadata\<close>. The keys \<^verbatim>\<open>ticker\<close> and \<^verbatim>\<open>disrupted\<close> are
  added later, by \<^verbatim>\<open>build_company_dataset\<close> and \<^verbatim>\<open>label_companies\<close>.
\<close>

record company =
  cik :: string
  name :: json
  sic :: int
  sic_description :: json
  state :: json
  n_10k :: nat
  n_8k :: nat
  n_total_filings :: nat
  tier :: int
  ticker :: "json option"
  disrupted :: "int option"

text \<open>The body of the \<^verbatim>\<open>try\<close> of \<^verbatim>\<open>fetch_company_metadata\<close>, after the document is decoded.\<close>

definition metadata_record :: "string \<Rightarrow> json \<Rightarrow> error + company" where
  "metadata_record = (\<lambda>cik data.
     and_then (py_get data ''filings'' (JObj [])) (\<lambda>filings.
     and_then (py_get filings ''recent'' (JObj [])) (\<lambda>recent.
     and_then (py_get recent ''form'' (JArr [])) (\<lambda>forms.
     and_then (py_get data ''sic'' (JNum 0)) (\<lambda>v.
     and_then (py_int (if truthy v then v else JNum 0)) (\<lambda>sic.
     and_then (py_get data ''name'' (JStr [])) (\<lambda>name.
     and_then (py_get data ''sicDescription'' (JStr [])) (\<lambda>sic_description.
     and_then (py_get data ''stateOfIncorporation'' (JStr [])) (\<lambda>state.
     and_then (py_count forms ''10-K'') (\<lambda>n_10k.
     and_then (py_count forms ''8-K'') (\<lambda>n_8k.
     and_then (py_len forms) (\<lambda>n_total_filings.
       Inr \<lparr>cik = cik, name = name, sic = sic, sic_description = sic_description,
            state = state, n_10k = n_10k, n_8k = n_8k, n_total_filings = n_total_filings,
            tier = sic_to_tier sic, ticker = None, disrupted = None\<rparr>))))))))))))"

definition fetch_company_metadata ::
  "(string \<Rightarrow> error + json option response) \<Rightarrow> string \<Rightarrow> company option"
where
  "fetch_company_metadata = (\<lambda>get cik.
     case and_then (get cik) (\<lambda>resp.
          and_then (raise_for_status resp) (\<lambda>resp.
          and_then (resp_json resp) (\<lambda>data. metadata_record cik data))) of
       Inl e \<Rightarrow> None
     | Inr meta \<Rightarrow> Some meta)"

text \<open>
  A data frame is its column names and its rows, together with the dtype of the column
  \<^verbatim>\<open>name\<close>, which is read only when the frame has no row: an empty column has nothing
  else to tell its dtype by. Built from a list of dicts a frame has the keys of the
  dicts as columns, and no column at all when the list is empty; its column \<^verbatim>\<open>name\<close>
  holds the values of the dicts as they are.
\<close>

record frame =
  columns :: "string list"
  name_dtype :: dtype
  rows :: "company list"

definition company_columns :: "string list" where
  "company_columns =
     [''cik'', ''name'', ''sic'', ''sic_description'', ''state'', ''n_10k'', ''n_8k'',
      ''n_total_filings'', ''tier'', ''ticker'']"

definition DataFrame :: "company list \<Rightarrow> frame" where
  "DataFrame records =
     \<lparr>columns = (if records = [] then [] else company_columns), name_dtype = Object,
      rows = records\<rparr>"

text \<open>The \<^verbatim>\<open>for i, row in tickers.iterrows()\<close> loop of \<^verbatim>\<open>build_company_dataset\<close>.\<close>

fun company_records ::
  "(string \<Rightarrow> error + json option response) \<Rightarrow> ticker_row list \<Rightarrow> company list"
where
  "company_records get [] = []"
| "company_records get (row # rest) =
     (case fetch_company_metadata get (row_cik row) of
        None \<Rightarrow> company_records get rest
      | Some meta \<Rightarrow> meta\<lparr>ticker := Some (row_ticker row)\<rparr> # company_records get rest)"

text \<open>
  The network as the program sees it: the answer of \<^verbatim>\<open>session.get\<close> for the ticker
  listing, for the submissions document of an identifier, and for the listing page of a
  year.
\<close>

record world =
  tickers_get :: "error + json option response"
  submissions_get :: "string \<Rightarrow> error + json option response"
  wiki_get :: "int \<Rightarrow> error + soup response"

definition build_company_dataset :: "world \<Rightarrow> int \<Rightarrow> error + frame" where
  "build_company_dataset w max_companies =
     and_then (fetch_all_tickers (tickers_get w) max_companies) (\<lambda>tickers.
       Inr (DataFrame (company_records (submissions_get w) tickers)))"

section \<open>Labelling\<close>

text \<open>
  \<^verbatim>\<open>companies["name"].apply(is_disrupted)\<close> calls the function on every cell and makes an
  int64 column of the results; on a column without cells it calls nothing and returns
  an empty column of the dtype of \<^verbatim>\<open>name\<close>.
\<close>

definition label_dtype :: "frame \<Rightarrow> dtype" where
  "label_dtype companies = (if rows companies = [] then name_dtype companies else Int64)"

definition label_companies :: "frame \<Rightarrow> string set \<Rightarrow> error + frame" where
  "label_companies companies disrupted_names =
     (if ''name'' \<notin> set (columns companies) then Inl (KeyError ''name'')
      else
        and_then (collect (\<lambda>c. is_disrupted disrupted_names (name c)) (rows companies))
          (\<lambda>labels.
             let labelled =
                   \<lparr>columns =
                      (if ''disrupted'' \<in> set (columns companies) then columns companies
                       else columns companies @ [''disrupted'']),
                    name_dtype = name_dtype companies,
                    rows = map (\<lambda>(c, l). c\<lparr>disrupted := Some l\<rparr>) (zip (rows companies) labels)\<rparr>;
                 pos = series_sum (label_dtype companies) labels
             in and_then (py_truediv (py_mul 100 pos) (int (length (rows labelled))))
                  (\<lambda>_. Inr labelled)))"

section \<open>The script\<close>

record args =
  max_companies :: int
  years :: "int list"

definition main :: "world \<Rightarrow> args \<Rightarrow> error + frame" where
  "main w a =
     and_then (build_company_dataset w (max_companies a)) (\<lambda>companies.
       label_companies companies (fst (builld_disrupted_name_set (wiki_get w) (Some (years a)))))"

section \<open>Example inputs\<close>

text \<open>
  Concrete inputs on which the theorems below are instantiated: a company table with
  the names \<^verbatim>\<open>Acme Inc\<close> and \<^verbatim>\<open>Beta LLC\<close>, the name set \<^verbatim>\<open>{"ACME", "GAMMA CORP"}\<close>, tables
  with the company columns and no row, a submissions document without the key
  \<^verbatim>\<open>sic\<close>, listing pages of which the one of 2020 cannot be fetched, and a network whose
  ticker listing cannot be fetched.
\<close>

definition example_company :: "string \<Rightarrow> string \<Rightarrow> company" where
  "example_company c n =
     \<lparr>cik = c, name = JStr n, sic = 0, sic_description = JStr [], state = JStr [],
      n_10k = 0, n_8k = 0, n_total_filings = 0, tier = 2, ticker = Some (JStr ''T''),
      disrupted = None\<rparr>"

definition example_frame :: frame where
  "example_frame =
     DataFrame [example_company ''0000000001'' ''Acme Inc'',
                example_company ''0000000002'' ''Beta LLC'']"

definition example_names :: "string set" where
  "example_names = {''ACME'', ''GAMMA CORP''}"

definition example_labelled :: frame where
  "example_labelled =
     \<lparr>columns = company_columns @ [''disrupted''], name_dtype = Object,
      rows = [(example_company ''0000000001'' ''Acme Inc'')\<lparr>disrupted := Some 1\<rparr>,
              (example_company ''0000000002'' ''Beta LLC'')\<lparr>disrupted := Some 0\<rparr>]\<rparr>"

definition empty_frame :: "dtype \<Rightarrow> frame" where
  "empty_frame d = \<lparr>columns = company_columns, name_dtype = d, rows = []\<rparr>"

definition example_recent :: json where
  "example_recent = JObj [(''form'', JArr [JStr ''10-K'', JStr ''8-K'', JStr ''10-K''])]"

definition example_filings :: json where
  "example_filings = JObj [(''recent'', example_recent)]"

definition example_fields :: "(string \<times> json) list" where
  "example_fields = [(''name'', JStr ''Acme Inc''), (''filings'', example_filings)]"

definition example_response :: "json option response" where
  "example_response = \<lparr>status = 200, body = Some (JObj example_fields)\<rparr>"

definition example_submissions :: "string \<Rightarrow> error + json option response" where
  "example_submissions = (\<lambda>c. Inr example_response)"

definition page_2019 :: "soup response" where
  "page_2019 = \<lparr>status = 200, body = \<lparr>mw_pages = Some [ ['' Acme Corp ''], ['' ''] ]\<rparr>\<rparr>"

definition page_2021 :: "soup response" where
  "page_2021 = \<lparr>status = 200, body = \<lparr>mw_pages = Some [ [''Zeta Ltd''] ]\<rparr>\<rparr>"

definition example_wiki :: "int \<Rightarrow> error + soup response" where
  "example_wiki y =
     (if y = 2019 then Inr page_2019 else if y = 2021 then Inr page_2021
      else Inl RequestException)"

definition offline_world :: world where
  "offline_world =
     \<lparr>tickers_get = Inl RequestException, submissions_get = example_submissions,
      wiki_get = example_wiki\<rparr>"

definition example_args :: args where
  "example_args = \<lparr>max_companies = 5000, years = [2019, 2020, 2021]\<rparr>"

section \<open>Lemmas about the tier classifier\<close>


lemma scan_ranges_first:
  "i < length rs \<Longrightarrow> in_range code (fst (rs ! i)) \<Longrightarrow>
   \<forall>k<i. \<not> in_range code (fst (rs ! k)) \<Longrightarrow> scan_ranges rs code = snd (rs ! i)"
proof (induction rs arbitrary: i)
  case Nil
  then show ?case by simp
next
  case (Cons p rs)
  obtain r t where p: "p = (r, t)" by (cases p)
  show ?case
  proof (cases i)
    case 0
    with Cons.prems p show ?thesis by simp
  next
    case (Suc j)
    from Cons.prems(3) Suc have "\<not> in_range code (fst ((p # rs) ! 0))" by blast
    then have nr: "\<not> in_range code r" using p by simp
    have "\<forall>k<j. \<not> in_range code (fst (rs ! k))"
    proof (intro allI impI)
      fix k assume "k < j"
      then have "Suc k < i" using Suc by simp
      with Cons.prems(3) have "\<not> in_range code (fst ((p # rs) ! Suc k))" by blast
      then show "\<not> in_range code (fst (rs ! k))" by simp
    qed
    moreover have "j < length rs" "in_range code (fst (rs ! j))"
      using Cons.prems(1,2) Suc by simp_all
    ultimately have "scan_ranges rs code = snd (rs ! j)" by (rule Cons.IH[rotated 2])
    with nr p Suc show ?thesis by simp
  qed
qed

lemma scan_ranges_none:
  "\<forall>p\<in>set rs. \<not> in_range code (fst p) \<Longrightarrow> scan_ranges rs code = 2"
  by (induction rs) auto

lemma sic_to_tier_cases:
  "sic_to_tier code =
     (if 100 \<le> code \<and> code < 1000 then 0
      else if 2000 \<le> code \<and> code < 3600 then 1
      else if 3600 \<le> code \<and> code < 4000 then 2
      else if 5000 \<le> code \<and> code < 5200 then 3
      else if 5200 \<le> code \<and> code < 5800 then 4
      else if 5900 \<le> code \<and> code < 6000 then 4
      else 2)"
  by (simp add: sic_to_tier_def SIC_RANGES_def in_range_def)

lemma nth_SIC_RANGES:
  "SIC_RANGES ! 0 = ((100, 1000), 0)"
  "SIC_RANGES ! 1 = ((2000, 2800), 1)"
  "SIC_RANGES ! Suc 0 = ((2000, 2800), 1)"
  "SIC_RANGES ! 2 = ((2800, 3600), 1)"
  "SIC_RANGES ! 3 = ((3000, 3600), 3)"
  "SIC_RANGES ! 4 = ((3600, 3800), 2)"
  "SIC_RANGES ! 5 = ((3800, 4000), 2)"
  "SIC_RANGES ! 6 = ((5000, 5200), 3)"
  "SIC_RANGES ! 7 = ((5200, 5400), 4)"
  "SIC_RANGES ! 8 = ((5400, 5800), 4)"
  "SIC_RANGES ! 9 = ((5900, 6000), 4)"
  "length SIC_RANGES = 10"
  by (simp_all add: SIC_RANGES_def)

lemma less_10_cases:
  "(j::nat) < 10 \<Longrightarrow> j = 0 \<or> j = 1 \<or> j = 2 \<or> j = 3 \<or> j = 4 \<or> j = 5 \<or> j = 6 \<or> j = 7 \<or> j = 8 \<or> j = 9"
  by arith

lemma overlapping_pair:
  assumes "i < j" "j < length SIC_RANGES"
    and "in_range code (fst (SIC_RANGES ! i))" "in_range code (fst (SIC_RANGES ! j))"
  shows "i = 2 \<and> j = 3"
proof -
  have j: "j < 10" using assms(2) by (simp add: nth_SIC_RANGES)
  then have i: "i < 10" using assms(1) by simp
  from less_10_cases[OF i] less_10_cases[OF j] assms(1,3,4) show ?thesis
    by - (elim disjE; simp add: nth_SIC_RANGES in_range_def)
qed

section \<open>Lemmas about errors, strings and labelling\<close>

lemma and_then_simps [simp]:
  "and_then (Inl e) f = Inl e"
  "and_then (Inr x) f = f x"
  by (simp_all add: and_then_def)

lemma startswith_prefix: "startswith s p \<longleftrightarrow> prefix p s"
  by (induction s p rule: startswith.induct) auto

lemma py_in_sublist: "py_in sub s \<longleftrightarrow> sublist sub s"
proof (induction s)
  case Nil
  show ?case by simp
next
  case (Cons c cs)
  then show ?case by (simp add: startswith_prefix sublist_Cons_right)
qed

lemma collect_Inr:
  "collect f xs = Inr ys \<Longrightarrow> length ys = length xs \<and> (\<forall>i<length xs. f (xs ! i) = Inr (ys ! i))"
proof (induction xs arbitrary: ys)
  case Nil
  then show ?case by simp
next
  case (Cons x xs)
  from Cons.prems obtain y zs where y: "f x = Inr y" and zs: "collect f xs = Inr zs"
    and ys: "ys = y # zs"
    by (auto split: sum.splits)
  from Cons.IH[OF zs] have len: "length zs = length xs"
    and nth: "\<forall>i<length xs. f (xs ! i) = Inr (zs ! i)" by simp_all
  show ?case
  proof (intro conjI allI impI)
    show "length ys = length (x # xs)" using ys len by simp
  next
    fix i assume "i < length (x # xs)"
    then show "f ((x # xs) ! i) = Inr (ys ! i)"
      using y nth ys by (cases i) simp_all
  qed
qed

lemma collect_all_Inr:
  "\<forall>x\<in>set xs. f x = Inr (g x) \<Longrightarrow> collect f xs = Inr (map g xs)"
  by (induction xs) simp_all

lemma is_disrupted_JStr:
  "is_disrupted S (JStr a) =
     Inr (if \<exists>b\<in>S. sublist (strip (upper a)) b \<or> sublist b (strip (upper a)) then 1 else 0)"
  by (auto simp: is_disrupted_def py_in_sublist Let_def)

lemma is_disrupted_Inr:
  "is_disrupted S v = Inr l \<Longrightarrow>
   \<exists>a. v = JStr a \<and>
     l = (if \<exists>b\<in>S. sublist (strip (upper a)) b \<or> sublist b (strip (upper a)) then 1 else 0)"
  by (cases v) (auto simp: is_disrupted_def py_in_sublist Let_def)

lemma label_companies_unfold:
  assumes "''name'' \<in> set (columns T)"
    and "collect (\<lambda>c. is_disrupted S (name c)) (rows T) = Inr labels"
  shows "label_companies T S =
     and_then (py_truediv (py_mul 100 (series_sum (label_dtype T) labels))
                 (int (length (rows T))))
       (\<lambda>_. Inr \<lparr>columns = (if ''disrupted'' \<in> set (columns T) then columns T
                               else columns T @ [''disrupted'']),
                   name_dtype = name_dtype T,
                   rows = map (\<lambda>(c, l). c\<lparr>disrupted := Some l\<rparr>) (zip (rows T) labels)\<rparr>)"
proof -
  from collect_Inr[OF assms(2)] have "length labels = length (rows T)" by simp
  with assms show ?thesis
    by (simp add: label_companies_def Let_def)
qed

lemma label_companies_Inr:
  assumes "label_companies T S = Inr L"
  obtains labels where "''name'' \<in> set (columns T)"
    and "collect (\<lambda>c. is_disrupted S (name c)) (rows T) = Inr labels"
    and "py_truediv (py_mul 100 (series_sum (label_dtype T) labels))
           (int (length (rows T))) = Inr ()"
    and "L = \<lparr>columns = (if ''disrupted'' \<in> set (columns T) then columns T
                          else columns T @ [''disrupted'']),
              name_dtype = name_dtype T,
              rows = map (\<lambda>(c, l). c\<lparr>disrupted := Some l\<rparr>) (zip (rows T) labels)\<rparr>"
proof -
  from assms have n: "''name'' \<in> set (columns T)"
    by (auto simp: label_companies_def split: if_splits)
  from assms n obtain labels where c: "collect (\<lambda>c. is_disrupted S (name c)) (rows T) = Inr labels"
    by (cases "collect (\<lambda>c. is_disrupted S (name c)) (rows T)") (auto simp: label_companies_def)
  note u = label_companies_unfold[OF n c]
  from assms u have d: "py_truediv (py_mul 100 (series_sum (label_dtype T) labels))
           (int (length (rows T))) = Inr ()"
    by (cases "py_truediv (py_mul 100 (series_sum (label_dtype T) labels))
           (int (length (rows T)))") simp_all
  from assms u d have "L = \<lparr>columns = (if ''disrupted'' \<in> set (columns T) then columns T
                          else columns T @ [''disrupted'']),
              name_dtype = name_dtype T,
              rows = map (\<lambda>(c, l). c\<lparr>disrupted := Some l\<rparr>) (zip (rows T) labels)\<rparr>"
    by simp
  with n c d show ?thesis using that by blast
qed

lemma label_companies_returns:
  assumes "''name'' \<in> set (columns T)" "rows T \<noteq> []"
    and "collect (\<lambda>c. is_disrupted S (name c)) (rows T) = Inr labels"
  shows "label_companies T S =
     Inr \<lparr>columns = (if ''disrupted'' \<in> set (columns T) then columns T
                          else columns T @ [''disrupted'']),
              name_dtype = name_dtype T,
              rows = map (\<lambda>(c, l). c\<lparr>disrupted := Some l\<rparr>) (zip (rows T) labels)\<rparr>"
proof -
  from assms(2) have "label_dtype T = Int64" by (simp add: label_dtype_def)
  then have "py_truediv (py_mul 100 (series_sum (label_dtype T) labels))
           (int (length (rows T))) = Inr ()"
    by simp
  with label_companies_unfold[OF assms(1,3)] show ?thesis by simp
qed

lemma relabel_rows:
  "length ys = length xs \<Longrightarrow>
   map (\<lambda>(c, l). c\<lparr>disrupted := Some l\<rparr>)
     (zip (map (\<lambda>(c, l). c\<lparr>disrupted := Some l\<rparr>) (zip xs ys)) ys) =
   map (\<lambda>(c, l). c\<lparr>disrupted := Some l\<rparr>) (zip xs (ys :: int list))"
proof (induction xs arbitrary: ys)
  case Nil
  then show ?case by simp
next
  case (Cons x xs)
  then obtain y zs where "ys = y # zs" by (cases ys) auto
  with Cons show ?case by simp
qed

lemma collect_relabelled:
  "collect (\<lambda>c. is_disrupted S (name c)) xs = Inr ys \<Longrightarrow>
   collect (\<lambda>c. is_disrupted S (name c))
     (map (\<lambda>(c, l). c\<lparr>disrupted := Some l\<rparr>) (zip xs ys)) = Inr ys"
proof (induction xs arbitrary: ys)
  case Nil
  then show ?case by simp
next
  case (Cons x xs)
  from Cons.prems obtain y zs where y: "is_disrupted S (name x) = Inr y"
    and zs: "collect (\<lambda>c. is_disrupted S (name c)) xs = Inr zs" and ys: "ys = y # zs"
    by (auto split: sum.splits)
  from Cons.IH[OF zs] y ys show ?case by simp
qed

section \<open>Lemmas about the fetchers\<close>

lemma raise_for_status_ok:
  "\<not> (400 \<le> status resp \<and> status resp < 600) \<Longrightarrow> raise_for_status resp = Inr resp"
  by (simp add: raise_for_status_def)

lemma raise_for_status_bad:
  "400 \<le> status resp \<and> status resp < 600 \<Longrightarrow> raise_for_status resp = Inl (HTTPError (status resp))"
  by (simp add: raise_for_status_def)

lemma metadata_record_missing_sic:
  assumes "map_of kvs ''sic'' = None"
    and "py_get (JObj kvs) ''filings'' (JObj []) = Inr filings"
    and "py_get filings ''recent'' (JObj []) = Inr recent"
    and "py_get recent ''form'' (JArr []) = Inr (JArr forms)"
  shows "\<exists>m. metadata_record c (JObj kvs) = Inr m \<and> cik m = c \<and> sic m = 0 \<and> tier m = 2"
proof -
  have s: "py_get (JObj kvs) ''sic'' (JNum 0) = Inr (JNum 0)"
    using assms(1) by (simp add: py_get_def)
  have g: "\<And>k d. \<exists>v. py_get (JObj kvs) k d = Inr v" by (simp add: py_get_def)
  obtain v1 where v1: "py_get (JObj kvs) ''name'' (JStr []) = Inr v1" using g by blast
  obtain v2 where v2: "py_get (JObj kvs) ''sicDescription'' (JStr []) = Inr v2" using g by blast
  obtain v3 where v3: "py_get (JObj kvs) ''stateOfIncorporation'' (JStr []) = Inr v3" using g by blast
  have t: "sic_to_tier 0 = 2" by (simp add: sic_to_tier_cases)
  show ?thesis
    unfolding metadata_record_def
    by (simp add: assms(2,3,4) s v1 v2 v3 t)
qed

lemma company_records_concat:
  "company_records get ts =
     concat (map (\<lambda>row. case fetch_company_metadata get (row_cik row) of
                          None \<Rightarrow> []
                        | Some meta \<Rightarrow> [meta\<lparr>ticker := Some (row_ticker row)\<rparr>]) ts)"
  by (induction ts) (simp_all split: option.splits)

lemma fetch_company_metadata_cases:
  "fetch_company_metadata get c =
     (case get c of
        Inl e \<Rightarrow> None
      | Inr resp \<Rightarrow>
          if 400 \<le> status resp \<and> status resp < 600 then None
          else (case body resp of
                  None \<Rightarrow> None
                | Some data \<Rightarrow>
                    (case metadata_record c data of Inl e \<Rightarrow> None | Inr meta \<Rightarrow> Some meta)))"
  by (simp add: fetch_company_metadata_def raise_for_status_def resp_json_def
      split: sum.splits option.splits)

lemma scrape_years_found:
  assumes "get y = Inr r" "\<not> (400 \<le> status r \<and> status r < 600)" "mw_pages (body r) = Some links"
  shows "scrape_years get (y # rest) recs lg =
     scrape_years get rest (recs @ year_records y links)
       (lg @ [(INFO, Scraping y), (INFO, CompaniesFound (length (year_records y links)) y)])"
  using assms by (simp add: raise_for_status_ok Let_def)

lemma scrape_years_skipped:
  assumes "get y = Inl e \<or>
     (\<exists>r. get y = Inr r \<and> ((400 \<le> status r \<and> status r < 600) \<or> mw_pages (body r) = None))"
  shows "\<exists>m. (m = NoMwPages y \<or> (\<exists>c. m = HttpSkipping c y) \<or> (\<exists>e. m = FailedSkipping y e)) \<and>
     (\<forall>rest recs lg. scrape_years get (y # rest) recs lg =
        scrape_years get rest recs (lg @ [(INFO, Scraping y), (WARNING, m)]))"
proof -
  define m where "m =
     (case and_then (get y) raise_for_status of
        Inl (HTTPError c) \<Rightarrow> HttpSkipping c y
      | Inl e \<Rightarrow> FailedSkipping y e
      | Inr r \<Rightarrow> NoMwPages y)"
  consider (err) "get y = Inl e"
    | (bad) r where "get y = Inr r" "400 \<le> status r \<and> status r < 600"
    | (nodiv) r where "get y = Inr r" "\<not> (400 \<le> status r \<and> status r < 600)" "mw_pages (body r) = None"
    using assms by blast
  then have "(m = NoMwPages y \<or> (\<exists>c. m = HttpSkipping c y) \<or> (\<exists>e. m = FailedSkipping y e)) \<and>
     (\<forall>rest recs lg. scrape_years get (y # rest) recs lg =
        scrape_years get rest recs (lg @ [(INFO, Scraping y), (WARNING, m)]))"
  proof cases
    case err
    then show ?thesis by (cases e) (simp_all add: Let_def m_def)
  next
    case bad
    then show ?thesis by (simp add: raise_for_status_bad Let_def m_def)
  next
    case nodiv
    then show ?thesis by (simp add: raise_for_status_ok Let_def m_def)
  qed
  then show ?thesis by blast
qed

lemma set_map_if_empty: "(if xs = [] then {} else set (map f xs)) = set (map f xs)"
  by simp

lemma b_name_year_records:
  "map b_name (year_records y links) = filter (\<lambda>n. n \<noteq> []) (map get_text links)"
  by (simp add: year_records_def comp_def)

lemma scrape_years_step:
  "\<exists>found line. \<forall>rest recs lg.
     scrape_years get (y # rest) recs lg =
     scrape_years get rest (recs @ found) (lg @ [(INFO, Scraping y), line])"
proof (cases "and_then (get y) raise_for_status")
  case (Inl e)
  define line where "line =
     (WARNING, case e of HTTPError c \<Rightarrow> HttpSkipping c y | _ \<Rightarrow> FailedSkipping y e)"
  from Inl have "\<forall>rest recs lg.
     scrape_years get (y # rest) recs lg =
     scrape_years get rest (recs @ []) (lg @ [(INFO, Scraping y), line])"
    by (cases e) (simp_all add: Let_def line_def)
  then show ?thesis by blast
next
  case (Inr resp)
  show ?thesis
  proof (cases "mw_pages (body resp)")
    case None
    with Inr have "\<forall>rest recs lg.
       scrape_years get (y # rest) recs lg =
       scrape_years get rest (recs @ []) (lg @ [(INFO, Scraping y), (WARNING, NoMwPages y)])"
      by (simp add: Let_def)
    then show ?thesis by blast
  next
    case (Some links)
    with Inr have "\<forall>rest recs lg.
       scrape_years get (y # rest) recs lg =
       scrape_years get rest (recs @ year_records y links)
         (lg @ [(INFO, Scraping y), (INFO, CompaniesFound (length (year_records y links)) y)])"
      by (simp add: Let_def)
    then show ?thesis by blast
  qed
qed

lemma scrape_years_concat:
  "scrape_years get ys recs lg =
     (recs @ concat (map (\<lambda>y. fst (scrape_years get [y] [] [])) ys),
      lg @ concat (map (\<lambda>y. snd (scrape_years get [y] [] [])) ys))"
proof (induction ys arbitrary: recs lg)
  case Nil
  show ?case by simp
next
  case (Cons y ys)
  from scrape_years_step[of get y] obtain found line
    where step: "\<And>rest recs lg. scrape_years get (y # rest) recs lg =
       scrape_years get rest (recs @ found) (lg @ [(INFO, Scraping y), line])"
    by blast
  have single: "scrape_years get [y] [] [] = (found, [(INFO, Scraping y), line])"
    unfolding step by simp
  have "scrape_years get (y # ys) recs lg =
      scrape_years get ys (recs @ found) (lg @ [(INFO, Scraping y), line])"
    by (rule step)
  also have "\<dots> =
     ((recs @ found) @ concat (map (\<lambda>y. fst (scrape_years get [y] [] [])) ys),
      (lg @ [(INFO, Scraping y), line]) @ concat (map (\<lambda>y. snd (scrape_years get [y] [] [])) ys))"
    by (rule Cons.IH)
  finally show ?case by (simp del: scrape_years.simps add: single)
qed

lemma scrape_wikipedia_bankruptcies_Some:
  "scrape_wikipedia_bankruptcies get (Some ys) =
     (fst (scrape_years get ys [] []),
      snd (scrape_years get ys [] []) @
        [(INFO, SavedRecords (length (fst (scrape_years get ys [] []))))])"
  by (simp del: scrape_years.simps add: scrape_wikipedia_bankruptcies_def split_beta)

lemma builld_disrupted_name_set_Some:
  "builld_disrupted_name_set get (Some ys) =
     (set (map (\<lambda>r. strip (upper (b_name r))) (fst (scrape_years get ys [] []))),
      snd (scrape_years get ys [] []) @
        [(INFO, SavedRecords (length (fst (scrape_years get ys [] []))))])"
  by (simp del: scrape_years.simps
      add: builld_disrupted_name_set_def scrape_wikipedia_bankruptcies_Some set_map_if_empty)

lemma name_set_is_union:
  "fst (builld_disrupted_name_set get (Some ys)) =
     (\<Union>y\<in>set ys. fst (builld_disrupted_name_set get (Some [y])))"
proof -
  have "fst (scrape_years get ys [] []) =
      concat (map (\<lambda>y. fst (scrape_years get [y] [] [])) ys)"
    by (subst scrape_years_concat) simp
  then show ?thesis
    by (simp del: scrape_years.simps add: builld_disrupted_name_set_Some image_UN)
qed

lemma log_holds_year_lines:
  assumes "y \<in> set ys" and "l \<in> set (snd (scrape_years get [y] [] []))"
  shows "l \<in> set (snd (builld_disrupted_name_set get (Some ys)))"
proof -
  have "snd (scrape_years get ys [] []) =
      concat (map (\<lambda>y. snd (scrape_years get [y] [] [])) ys)"
    by (subst scrape_years_concat) simp
  with assms show ?thesis
    by (auto simp del: scrape_years.simps simp add: builld_disrupted_name_set_Some)
qed

lemma one_year_skipped:
  assumes "get y = Inl e \<or>
     (\<exists>r. get y = Inr r \<and> ((400 \<le> status r \<and> status r < 600) \<or> mw_pages (body r) = None))"
  shows "\<exists>m. (m = NoMwPages y \<or> (\<exists>c. m = HttpSkipping c y) \<or> (\<exists>e. m = FailedSkipping y e)) \<and>
     scrape_years get [y] [] [] = ([], [(INFO, Scraping y), (WARNING, m)])"
proof -
  from scrape_years_skipped[where get = get and y = y and e = e, OF assms] obtain m
    where m: "m = NoMwPages y \<or> (\<exists>c. m = HttpSkipping c y) \<or> (\<exists>e. m = FailedSkipping y e)"
    and skip: "\<And>rest recs lg. scrape_years get (y # rest) recs lg =
       scrape_years get rest recs (lg @ [(INFO, Scraping y), (WARNING, m)])"
    by blast
  have "scrape_years get [y] [] [] = ([], [(INFO, Scraping y), (WARNING, m)])"
    unfolding skip by simp
  with m show ?thesis by blast
qed

lemma one_year_found:
  assumes "get y = Inr r" "\<not> (400 \<le> status r \<and> status r < 600)" "mw_pages (body r) = Some links"
  shows "scrape_years get [y] [] [] =
     (year_records y links,
      [(INFO, Scraping y), (INFO, CompaniesFound (length (year_records y links)) y)])"
  unfolding scrape_years_found[where get = get and y = y, OF assms] by simp

lemma three_years_middle_skipped:
  assumes "get 2019 = Inr r1" "\<not> (400 \<le> status r1 \<and> status r1 < 600)"
      "mw_pages (body r1) = Some l1"
    and "get 2021 = Inr r2" "\<not> (400 \<le> status r2 \<and> status r2 < 600)"
      "mw_pages (body r2) = Some l2"
    and "get 2020 = Inl e \<or>
      (\<exists>r. get 2020 = Inr r \<and> ((400 \<le> status r \<and> status r < 600) \<or> mw_pages (body r) = None))"
  shows "fst (builld_disrupted_name_set get (Some [2019, 2020, 2021])) =
      set (map (\<lambda>n. strip (upper n)) (filter (\<lambda>n. n \<noteq> []) (map get_text (l1 @ l2)))) \<and>
    (\<exists>m. (m = NoMwPages 2020 \<or> (\<exists>c. m = HttpSkipping c 2020) \<or> (\<exists>e. m = FailedSkipping 2020 e)) \<and>
      snd (builld_disrupted_name_set get (Some [2019, 2020, 2021])) =
        [(INFO, Scraping 2019), (INFO, CompaniesFound (length (year_records 2019 l1)) 2019),
         (INFO, Scraping 2020), (WARNING, m),
         (INFO, Scraping 2021), (INFO, CompaniesFound (length (year_records 2021 l2)) 2021),
         (INFO, SavedRecords (length (year_records 2019 l1 @ year_records 2021 l2)))])"
proof -
  let ?recs = "year_records 2019 l1 @ year_records 2021 l2"
  from scrape_years_skipped[of get 2020 e, OF assms(7)] obtain m
    where m: "m = NoMwPages 2020 \<or> (\<exists>c. m = HttpSkipping c 2020) \<or> (\<exists>e. m = FailedSkipping 2020 e)"
    and skip: "\<And>rest recs lg. scrape_years get (2020 # rest) recs lg =
       scrape_years get rest recs (lg @ [(INFO, Scraping 2020), (WARNING, m)])"
    by blast
  have run: "scrape_years get [2019, 2020, 2021] [] [] =
      (?recs,
       [(INFO, Scraping 2019), (INFO, CompaniesFound (length (year_records 2019 l1)) 2019),
        (INFO, Scraping 2020), (WARNING, m),
        (INFO, Scraping 2021), (INFO, CompaniesFound (length (year_records 2021 l2)) 2021)])"
    by (simp del: scrape_years.simps
        add: scrape_years.simps(1) scrape_years_found[where get = get and y = 2019, OF assms(1,2,3)] skip
        scrape_years_found[where get = get and y = 2021, OF assms(4,5,6)])
  have names: "map b_name ?recs = filter (\<lambda>n. n \<noteq> []) (map get_text (l1 @ l2))"
    by (simp add: b_name_year_records)
  have "set (map (\<lambda>r. strip (upper (b_name r))) ?recs) =
      set (map (\<lambda>n. strip (upper n)) (map b_name ?recs))"
    by (simp add: comp_def)
  then have set_eq: "set (map (\<lambda>r. strip (upper (b_name r))) ?recs) =
      set (map (\<lambda>n. strip (upper n)) (filter (\<lambda>n. n \<noteq> []) (map get_text (l1 @ l2))))"
    by (simp only: names)
  have fst_eq: "fst (builld_disrupted_name_set get (Some [2019, 2020, 2021])) =
      (if ?recs = [] then {} else set (map (\<lambda>r. strip (upper (b_name r))) ?recs))"
    by (simp del: scrape_years.simps
        add: builld_disrupted_name_set_def scrape_wikipedia_bankruptcies_def run)
  have one: "fst (builld_disrupted_name_set get (Some [2019, 2020, 2021])) =
      set (map (\<lambda>n. strip (upper n)) (filter (\<lambda>n. n \<noteq> []) (map get_text (l1 @ l2))))"
    unfolding fst_eq set_map_if_empty by (rule set_eq)
  have two: "snd (builld_disrupted_name_set get (Some [2019, 2020, 2021])) =
        [(INFO, Scraping 2019), (INFO, CompaniesFound (length (year_records 2019 l1)) 2019),
         (INFO, Scraping 2020), (WARNING, m),
         (INFO, Scraping 2021), (INFO, CompaniesFound (length (year_records 2021 l2)) 2021),
         (INFO, SavedRecords (length ?recs))]"
    by (simp del: scrape_years.simps
        add: builld_disrupted_name_set_def scrape_wikipedia_bankruptcies_def run)
  from one two m show ?thesis by blast
qed

section \<open>The tier classifier is total\<close>

text \<open>
  Claim C3. \<^verbatim>\<open>sic_to_tier\<close> is a function of the code alone and has no failing branch: for
  every integer, negative and zero included, its value is one of 0, 1, 2, 3, 4.
\<close>

theorem sic_to_tier_total: "sic_to_tier code \<in> {0, 1, 2, 3, 4}"
  by (simp add: sic_to_tier_cases)

theorem sic_to_tier_total_witness:
  "sic_to_tier (- 5) \<in> {0, 1, 2, 3, 4} \<and> sic_to_tier 0 \<in> {0, 1, 2, 3, 4}"
  using sic_to_tier_total[of "- 5"] sic_to_tier_total[of 0] by simp

section \<open>The first range holding a code decides\<close>

text \<open>
  Claim C4. The list \<^verbatim>\<open>SIC_RANGES\<close> is scanned in the order it is written: the tier of the
  first range holding the code is returned, and a code held both by a range written
  earlier and by one written later gets the tier of the earlier one.
\<close>

theorem first_range_wins:
  "(\<forall>i<length SIC_RANGES.
      in_range code (fst (SIC_RANGES ! i)) \<and> (\<forall>k<i. \<not> in_range code (fst (SIC_RANGES ! k)))
      \<longrightarrow> sic_to_tier code = snd (SIC_RANGES ! i)) \<and>
   (\<forall>i j. i < j \<and> j < length SIC_RANGES \<and>
      in_range code (fst (SIC_RANGES ! i)) \<and> in_range code (fst (SIC_RANGES ! j))
      \<longrightarrow> sic_to_tier code = snd (SIC_RANGES ! i))"
proof (intro conjI allI impI)
  fix i
  assume "i < length SIC_RANGES"
    and "in_range code (fst (SIC_RANGES ! i)) \<and> (\<forall>k<i. \<not> in_range code (fst (SIC_RANGES ! k)))"
  then show "sic_to_tier code = snd (SIC_RANGES ! i)"
    unfolding sic_to_tier_def by (intro scan_ranges_first) simp_all
next
  fix i j
  assume h: "i < j \<and> j < length SIC_RANGES \<and>
      in_range code (fst (SIC_RANGES ! i)) \<and> in_range code (fst (SIC_RANGES ! j))"
  then have ij: "i = 2 \<and> j = 3" using overlapping_pair by blast
  with h have "2800 \<le> code \<and> code < 3600" by (simp add: nth_SIC_RANGES in_range_def)
  then show "sic_to_tier code = snd (SIC_RANGES ! i)"
    using ij by (simp add: sic_to_tier_cases nth_SIC_RANGES)
qed

theorem first_range_wins_witness:
  "in_range 3100 (fst (SIC_RANGES ! 2)) \<and> in_range 3100 (fst (SIC_RANGES ! 3)) \<and>
   snd (SIC_RANGES ! 2) = 1 \<and> snd (SIC_RANGES ! 3) = 3 \<and> sic_to_tier 3100 = 1"
proof -
  have h: "(2::nat) < 3 \<and> 3 < length SIC_RANGES \<and>
      in_range 3100 (fst (SIC_RANGES ! 2)) \<and> in_range 3100 (fst (SIC_RANGES ! 3))"
    by (simp add: nth_SIC_RANGES in_range_def)
  from first_range_wins[of 3100] h have "sic_to_tier 3100 = snd (SIC_RANGES ! 2)" by blast
  with h show ?thesis by (simp add: nth_SIC_RANGES)
qed

section \<open>Unknown codes fall back to tier 2\<close>

text \<open>
  Claim C5. A code that no declared range holds gets tier 2, and 0 is such a code. When
  the key \<^verbatim>\<open>sic\<close> is missing from a submissions document whose filings lead to a list of
  forms, \<^verbatim>\<open>fetch_company_metadata\<close> returns a record with code 0 and tier 2.
\<close>

theorem unknown_code_tier:
  "((\<forall>p\<in>set SIC_RANGES. \<not> in_range code (fst p)) \<longrightarrow> sic_to_tier code = 2) \<and>
   (\<forall>p\<in>set SIC_RANGES. \<not> in_range 0 (fst p)) \<and>
   (get c = Inr resp \<and> \<not> (400 \<le> status resp \<and> status resp < 600) \<and>
    body resp = Some (JObj kvs) \<and> map_of kvs ''sic'' = None \<and>
    py_get (JObj kvs) ''filings'' (JObj []) = Inr filings \<and>
    py_get filings ''recent'' (JObj []) = Inr recent \<and>
    py_get recent ''form'' (JArr []) = Inr (JArr forms)
    \<longrightarrow> (\<exists>m. fetch_company_metadata get c = Some m \<and> cik m = c \<and> sic m = 0 \<and> tier m = 2))"
proof (intro conjI impI)
  assume "\<forall>p\<in>set SIC_RANGES. \<not> in_range code (fst p)"
  then show "sic_to_tier code = 2" unfolding sic_to_tier_def by (rule scan_ranges_none)
next
  show "\<forall>p\<in>set SIC_RANGES. \<not> in_range 0 (fst p)"
    by (simp add: SIC_RANGES_def in_range_def)
next
  assume h: "get c = Inr resp \<and> \<not> (400 \<le> status resp \<and> status resp < 600) \<and>
    body resp = Some (JObj kvs) \<and> map_of kvs ''sic'' = None \<and>
    py_get (JObj kvs) ''filings'' (JObj []) = Inr filings \<and>
    py_get filings ''recent'' (JObj []) = Inr recent \<and>
    py_get recent ''form'' (JArr []) = Inr (JArr forms)"
  then obtain m where m: "metadata_record c (JObj kvs) = Inr m" "cik m = c" "sic m = 0" "tier m = 2"
    using metadata_record_missing_sic by blast
  from h have "raise_for_status resp = Inr resp" by (simp add: raise_for_status_ok)
  moreover from h have "resp_json resp = Inr (JObj kvs)" by (simp add: resp_json_def)
  ultimately have "fetch_company_metadata get c = Some m"
    using h m(1) by (simp add: fetch_company_metadata_def)
  with m show "\<exists>m. fetch_company_metadata get c = Some m \<and> cik m = c \<and> sic m = 0 \<and> tier m = 2"
    by blast
qed


theorem unknown_code_tier_witness:
  "map_of example_fields ''sic'' = None \<and>
   map_option sic (fetch_company_metadata example_submissions ''0000000001'') = Some 0 \<and>
   map_option tier (fetch_company_metadata example_submissions ''0000000001'') = Some 2 \<and>
   sic_to_tier 0 = 2"
proof -
  have h: "example_submissions ''0000000001'' = Inr example_response \<and>
      \<not> (400 \<le> status example_response \<and> status example_response < 600) \<and>
      body example_response = Some (JObj example_fields) \<and>
      map_of example_fields ''sic'' = None \<and>
      py_get (JObj example_fields) ''filings'' (JObj []) = Inr example_filings \<and>
      py_get example_filings ''recent'' (JObj []) = Inr example_recent \<and>
      py_get example_recent ''form'' (JArr []) =
        Inr (JArr [JStr ''10-K'', JStr ''8-K'', JStr ''10-K''])"
    by (simp add: example_submissions_def example_response_def example_fields_def
        example_filings_def example_recent_def py_get_def)
  note t = unknown_code_tier[where code = 0 and get = example_submissions
      and c = "''0000000001''" and resp = example_response and kvs = example_fields
      and filings = example_filings and recent = example_recent
      and forms = "[JStr ''10-K'', JStr ''8-K'', JStr ''10-K'']"]
  from t h obtain m where "fetch_company_metadata example_submissions ''0000000001'' = Some m"
    and "sic m = 0" and "tier m = 2" by blast
  moreover from t have "sic_to_tier 0 = 2" by blast
  ultimately show ?thesis using h by simp
qed

section \<open>The shadowed range\<close>

text \<open>
  Claim C10. The range from 3000 to 3600 with tier 3 lies inside the range from 2800 to
  3600 with tier 1, which is written before it: every code from 3000 up to, not
  including, 3600 gets tier 1, and tier 3 is returned exactly for the codes from 5000
  up to, not including, 5200.
\<close>

theorem shadowed_range:
  "SIC_RANGES ! 2 = ((2800, 3600), 1) \<and> SIC_RANGES ! 3 = ((3000, 3600), 3) \<and>
   (in_range code (fst (SIC_RANGES ! 3)) \<longrightarrow> in_range code (fst (SIC_RANGES ! 2))) \<and>
   (3000 \<le> code \<and> code < 3600 \<longrightarrow> sic_to_tier code = 1) \<and>
   (sic_to_tier code = 3 \<longleftrightarrow> 5000 \<le> code \<and> code < 5200)"
  by (simp add: nth_SIC_RANGES in_range_def sic_to_tier_cases)

theorem shadowed_range_witness:
  "(3000::int) \<le> 3000 \<and> (3000::int) < 3600 \<and> sic_to_tier 3000 = 1 \<and> sic_to_tier 5100 = 3"
  using shadowed_range[of 3000] shadowed_range[of 5100] by simp

section \<open>Labels follow the substring rule\<close>

text \<open>
  Claim C1. Whenever \<^verbatim>\<open>label_companies\<close> returns, the table has the same rows with the
  label set: every name is a string, and its company is labelled 1 if the uppercased
  and stripped name is a substring of some entry of the set or some entry is a
  substring of it, and 0 otherwise. It returns for every table that has the column
  \<^verbatim>\<open>name\<close>, at least one row, and strings as names.
\<close>

theorem label_companies_labels:
  "(\<forall>L. label_companies T S = Inr L \<longrightarrow>
      length (rows L) = length (rows T) \<and>
      (\<forall>i<length (rows T). \<exists>a. name (rows T ! i) = JStr a \<and>
         rows L ! i = (rows T ! i)\<lparr>disrupted :=
           Some (if \<exists>b\<in>S. sublist (strip (upper a)) b \<or> sublist b (strip (upper a))
                 then 1 else 0)\<rparr>)) \<and>
   (''name'' \<in> set (columns T) \<and> rows T \<noteq> [] \<and> (\<forall>c\<in>set (rows T). \<exists>a. name c = JStr a)
      \<longrightarrow> (\<exists>L. label_companies T S = Inr L))"
proof (intro conjI allI impI)
  fix L
  assume "label_companies T S = Inr L"
  then obtain labels where c: "collect (\<lambda>c. is_disrupted S (name c)) (rows T) = Inr labels"
    and L: "L = \<lparr>columns = (if ''disrupted'' \<in> set (columns T) then columns T
                          else columns T @ [''disrupted'']),
              name_dtype = name_dtype T,
              rows = map (\<lambda>(c, l). c\<lparr>disrupted := Some l\<rparr>) (zip (rows T) labels)\<rparr>"
    by (rule label_companies_Inr)
  from collect_Inr[OF c] have len: "length labels = length (rows T)"
    and nth: "\<forall>i<length (rows T). is_disrupted S (name (rows T ! i)) = Inr (labels ! i)"
    by simp_all
  show "length (rows L) = length (rows T)" using L len by simp
  fix i
  assume i: "i < length (rows T)"
  with nth have "is_disrupted S (name (rows T ! i)) = Inr (labels ! i)" by simp
  then obtain a where a: "name (rows T ! i) = JStr a"
    and l: "labels ! i =
      (if \<exists>b\<in>S. sublist (strip (upper a)) b \<or> sublist b (strip (upper a)) then 1 else 0)"
    using is_disrupted_Inr by blast
  have "rows L ! i = (rows T ! i)\<lparr>disrupted := Some (labels ! i)\<rparr>"
    using L len i by simp
  with a l show "\<exists>a. name (rows T ! i) = JStr a \<and>
         rows L ! i = (rows T ! i)\<lparr>disrupted :=
           Some (if \<exists>b\<in>S. sublist (strip (upper a)) b \<or> sublist b (strip (upper a))
                 then 1 else 0)\<rparr>"
    by (intro exI[of _ a]) simp
next
  assume h: "''name'' \<in> set (columns T) \<and> rows T \<noteq> [] \<and> (\<forall>c\<in>set (rows T). \<exists>a. name c = JStr a)"
  define g where "g = (\<lambda>c :: company. projr (is_disrupted S (name c)))"
  have "\<forall>c\<in>set (rows T). is_disrupted S (name c) = Inr (g c)"
  proof
    fix c assume "c \<in> set (rows T)"
    with h obtain a where "name c = JStr a" by blast
    then show "is_disrupted S (name c) = Inr (g c)" by (simp add: g_def is_disrupted_JStr)
  qed
  then have "collect (\<lambda>c. is_disrupted S (name c)) (rows T) = Inr (map g (rows T))"
    by (rule collect_all_Inr)
  with h label_companies_returns show "\<exists>L. label_companies T S = Inr L" by blast
qed

theorem label_companies_labels_witness:
  "''name'' \<in> set (columns example_frame) \<and> rows example_frame \<noteq> [] \<and>
   label_companies example_frame example_names = Inr example_labelled \<and>
   length (rows example_labelled) = length (rows example_frame) \<and>
   map disrupted (rows example_labelled) = [Some 1, Some 0]"
proof -
  have h: "label_companies example_frame example_names = Inr example_labelled"
    by code_simp
  from label_companies_labels[of example_frame example_names] h
  have "length (rows example_labelled) = length (rows example_frame)" by blast
  moreover have "''name'' \<in> set (columns example_frame) \<and> rows example_frame \<noteq> [] \<and>
      map disrupted (rows example_labelled) = [Some 1, Some 0]"
    by code_simp
  ultimately show ?thesis using h by simp
qed

section \<open>The matcher normalises the company name only\<close>

text \<open>
  The claim that both strings are uppercased and stripped before they are compared
  fails: for the name \<^verbatim>\<open>Acme\<close> and the entry \<^verbatim>\<open>Acme Corp Holdings\<close> the matcher answers 0,
  although the normalised name is a substring of the normalised entry.
\<close>

theorem matcher_entry_not_normalised:
  "is_disrupted {''Acme Corp Holdings''} (JStr ''Acme'') = Inr 0 \<and>
   sublist (strip (upper ''Acme'')) (strip (upper ''Acme Corp Holdings''))"
  by code_simp

text \<open>
  Claim C2. (amended) The matcher uppercases and strips the company name A only; an entry
  B of the set is compared as it is. It reports a match exactly when B is a substring
  of the normalised A or the normalised A is a substring of B. For an entry that is
  already uppercased and stripped this is the rule with both strings normalised. The
  name \<^verbatim>\<open>Acme Corp\<close> matches \<^verbatim>\<open>{"ACME"}\<close>, the name \<^verbatim>\<open>Acme\<close> matches
  \<^verbatim>\<open>{"ACME CORP HOLDINGS"}\<close>, and \<^verbatim>\<open>Zeta\<close> does not match \<^verbatim>\<open>{"ACME"}\<close>.
\<close>

theorem matcher_compares_entry_as_given:
  "is_disrupted {B} (JStr A) =
     Inr (if sublist B (strip (upper A)) \<or> sublist (strip (upper A)) B then 1 else 0) \<and>
   (strip (upper B) = B \<longrightarrow>
      (is_disrupted {B} (JStr A) = Inr 1 \<longleftrightarrow>
         sublist (strip (upper B)) (strip (upper A)) \<or>
         sublist (strip (upper A)) (strip (upper B)))) \<and>
   is_disrupted {''ACME''} (JStr ''Acme Corp'') = Inr 1 \<and>
   is_disrupted {''ACME CORP HOLDINGS''} (JStr ''Acme'') = Inr 1 \<and>
   is_disrupted {''ACME''} (JStr ''Zeta'') = Inr 0"
proof -
  have gen: "is_disrupted {B} (JStr A) =
     Inr (if sublist B (strip (upper A)) \<or> sublist (strip (upper A)) B then 1 else 0)"
    by (auto simp: is_disrupted_def py_in_sublist Let_def)
  have norm: "strip (upper B) = B \<longrightarrow>
      (is_disrupted {B} (JStr A) = Inr 1 \<longleftrightarrow>
         sublist (strip (upper B)) (strip (upper A)) \<or>
         sublist (strip (upper A)) (strip (upper B)))"
    by (simp add: gen)
  have lit: "is_disrupted {''ACME''} (JStr ''Acme Corp'') = Inr 1 \<and>
      is_disrupted {''ACME CORP HOLDINGS''} (JStr ''Acme'') = Inr 1 \<and>
      is_disrupted {''ACME''} (JStr ''Zeta'') = Inr 0"
    by code_simp
  from gen norm lit show ?thesis by blast
qed

theorem matcher_compares_entry_as_given_witness:
  "strip (upper ''ACME'') = ''ACME'' \<and>
   sublist (strip (upper ''ACME'')) (strip (upper ''Acme Corp'')) \<and>
   is_disrupted {''ACME''} (JStr ''Acme Corp'') = Inr 1"
proof -
  have h: "strip (upper ''ACME'') = ''ACME'' \<and>
      sublist (strip (upper ''ACME'')) (strip (upper ''Acme Corp''))"
    by code_simp
  with matcher_compares_entry_as_given[of "''ACME''" "''Acme Corp''"] show ?thesis
    by blast
qed

section \<open>Labelling twice\<close>

text \<open>
  Claim C6. Labelling is idempotent: running \<^verbatim>\<open>label_companies\<close> on its own result with
  the same set of names gives that result again (and where the first run raises, there
  is no second run).
\<close>

theorem label_companies_idempotent:
  "and_then (label_companies T S) (\<lambda>L. label_companies L S) = label_companies T S"
proof (cases "label_companies T S")
  case (Inl e)
  then show ?thesis by simp
next
  case (Inr L)
  then obtain labels where n: "''name'' \<in> set (columns T)"
    and c: "collect (\<lambda>c. is_disrupted S (name c)) (rows T) = Inr labels"
    and d: "py_truediv (py_mul 100 (series_sum (label_dtype T) labels))
           (int (length (rows T))) = Inr ()"
    and L: "L = \<lparr>columns = (if ''disrupted'' \<in> set (columns T) then columns T
                          else columns T @ [''disrupted'']),
              name_dtype = name_dtype T,
              rows = map (\<lambda>(c, l). c\<lparr>disrupted := Some l\<rparr>) (zip (rows T) labels)\<rparr>"
    by (rule label_companies_Inr)
  from collect_Inr[OF c] have len: "length labels = length (rows T)" by simp
  have n': "''name'' \<in> set (columns L)" using n L by simp
  have len': "length (rows L) = length (rows T)" using len L by simp
  then have "rows L = [] \<longleftrightarrow> rows T = []" by (metis length_0_conv)
  then have dt: "label_dtype L = label_dtype T" using L by (simp add: label_dtype_def)
  have c': "collect (\<lambda>c. is_disrupted S (name c)) (rows L) = Inr labels"
    using collect_relabelled[OF c] L by simp
  have same: "\<lparr>columns = (if ''disrupted'' \<in> set (columns L) then columns L
                          else columns L @ [''disrupted'']),
              name_dtype = name_dtype L,
              rows = map (\<lambda>(c, l). c\<lparr>disrupted := Some l\<rparr>) (zip (rows L) labels)\<rparr> = L"
    using relabel_rows[OF len] L by simp
  from label_companies_unfold[OF n' c'] d have "label_companies L S = Inr L"
    by (simp add: dt len' same)
  with Inr show ?thesis by simp
qed

theorem label_companies_idempotent_witness:
  "label_companies example_frame example_names = Inr example_labelled \<and>
   label_companies example_labelled example_names = Inr example_labelled"
proof -
  have h: "label_companies example_frame example_names = Inr example_labelled"
    by code_simp
  with label_companies_idempotent[of example_frame example_names] show ?thesis
    by simp
qed

section \<open>A year that cannot be fetched is skipped\<close>

text \<open>
  Claim C7. A year whose page cannot be fetched (\<^verbatim>\<open>session.get\<close> raises, the status is an
  error status, or the page has no \<^verbatim>\<open>mw-pages\<close> element) is skipped with a warning and the
  other years are not affected: for every list of years the set built by
  \<^verbatim>\<open>builld_disrupted_name_set\<close> is the union of the sets of the single years, a year that
  fails gives the empty set and a warning in the log, and a year that is fetched gives
  the normalised link texts of its page. In particular, when only 2020 fails, the
  years 2019, 2020, 2021 give exactly the names of 2019 and 2021, and the log holds
  one warning for 2020, followed by the lines of 2021.
\<close>

theorem failed_year_is_skipped:
  "fst (builld_disrupted_name_set get (Some ys)) =
     (\<Union>y\<in>set ys. fst (builld_disrupted_name_set get (Some [y]))) \<and>
   (get y = Inl e \<or>
    (\<exists>r. get y = Inr r \<and> ((400 \<le> status r \<and> status r < 600) \<or> mw_pages (body r) = None))
    \<longrightarrow>
      fst (builld_disrupted_name_set get (Some [y])) = {} \<and>
      (y \<in> set ys \<longrightarrow>
         (\<exists>m. (m = NoMwPages y \<or> (\<exists>c. m = HttpSkipping c y) \<or> (\<exists>e. m = FailedSkipping y e)) \<and>
              (WARNING, m) \<in> set (snd (builld_disrupted_name_set get (Some ys)))))) \<and>
   (get z = Inr r \<and> \<not> (400 \<le> status r \<and> status r < 600) \<and> mw_pages (body r) = Some links
    \<longrightarrow>
      fst (builld_disrupted_name_set get (Some [z])) =
        set (map (\<lambda>n. strip (upper n)) (filter (\<lambda>n. n \<noteq> []) (map get_text links))) \<and>
      (z \<in> set ys \<longrightarrow>
         (INFO, CompaniesFound (length (year_records z links)) z)
           \<in> set (snd (builld_disrupted_name_set get (Some ys))))) \<and>
   (get 2019 = Inr r1 \<and> \<not> (400 \<le> status r1 \<and> status r1 < 600) \<and>
    mw_pages (body r1) = Some l1 \<and>
    get 2021 = Inr r2 \<and> \<not> (400 \<le> status r2 \<and> status r2 < 600) \<and>
    mw_pages (body r2) = Some l2 \<and>
    (get 2020 = Inl e' \<or>
     (\<exists>r. get 2020 = Inr r \<and> ((400 \<le> status r \<and> status r < 600) \<or> mw_pages (body r) = None)))
    \<longrightarrow>
      fst (builld_disrupted_name_set get (Some [2019, 2020, 2021])) =
        set (map (\<lambda>n. strip (upper n)) (filter (\<lambda>n. n \<noteq> []) (map get_text (l1 @ l2)))) \<and>
      (\<exists>m. (m = NoMwPages 2020 \<or> (\<exists>c. m = HttpSkipping c 2020) \<or>
             (\<exists>e. m = FailedSkipping 2020 e)) \<and>
        snd (builld_disrupted_name_set get (Some [2019, 2020, 2021])) =
          [(INFO, Scraping 2019), (INFO, CompaniesFound (length (year_records 2019 l1)) 2019),
           (INFO, Scraping 2020), (WARNING, m),
           (INFO, Scraping 2021), (INFO, CompaniesFound (length (year_records 2021 l2)) 2021),
           (INFO, SavedRecords (length (year_records 2019 l1 @ year_records 2021 l2)))]))"
proof (intro conjI impI)
  show "fst (builld_disrupted_name_set get (Some ys)) =
     (\<Union>y\<in>set ys. fst (builld_disrupted_name_set get (Some [y])))"
    by (rule name_set_is_union)
next
  assume f: "get y = Inl e \<or>
    (\<exists>r. get y = Inr r \<and> ((400 \<le> status r \<and> status r < 600) \<or> mw_pages (body r) = None))"
  from one_year_skipped[where get = get and y = y and e = e, OF f] obtain m
    where m: "m = NoMwPages y \<or> (\<exists>c. m = HttpSkipping c y) \<or> (\<exists>e. m = FailedSkipping y e)"
    and run: "scrape_years get [y] [] [] = ([], [(INFO, Scraping y), (WARNING, m)])"
    by blast
  show "fst (builld_disrupted_name_set get (Some [y])) = {}"
    by (simp del: scrape_years.simps add: builld_disrupted_name_set_Some run)
  assume "y \<in> set ys"
  moreover have "(WARNING, m) \<in> set (snd (scrape_years get [y] [] []))"
    by (simp del: scrape_years.simps add: run)
  ultimately have "(WARNING, m) \<in> set (snd (builld_disrupted_name_set get (Some ys)))"
    by (rule log_holds_year_lines)
  with m show "\<exists>m. (m = NoMwPages y \<or> (\<exists>c. m = HttpSkipping c y) \<or> (\<exists>e. m = FailedSkipping y e)) \<and>
      (WARNING, m) \<in> set (snd (builld_disrupted_name_set get (Some ys)))"
    by blast
next
  assume s: "get z = Inr r \<and> \<not> (400 \<le> status r \<and> status r < 600) \<and>
    mw_pages (body r) = Some links"
  then have s1: "get z = Inr r" and s2: "\<not> (400 \<le> status r \<and> status r < 600)"
    and s3: "mw_pages (body r) = Some links"
    by blast+
  have run: "scrape_years get [z] [] [] =
     (year_records z links,
      [(INFO, Scraping z), (INFO, CompaniesFound (length (year_records z links)) z)])"
    by (rule one_year_found[where get = get and y = z, OF s1 s2 s3])
  have "set (map (\<lambda>r. strip (upper (b_name r))) (year_records z links)) =
      set (map (\<lambda>n. strip (upper n)) (map b_name (year_records z links)))"
    by (simp add: comp_def)
  then show "fst (builld_disrupted_name_set get (Some [z])) =
      set (map (\<lambda>n. strip (upper n)) (filter (\<lambda>n. n \<noteq> []) (map get_text links)))"
    by (simp del: scrape_years.simps
        add: builld_disrupted_name_set_Some run b_name_year_records)
  assume "z \<in> set ys"
  moreover have "(INFO, CompaniesFound (length (year_records z links)) z)
      \<in> set (snd (scrape_years get [z] [] []))"
    by (simp del: scrape_years.simps add: run)
  ultimately show "(INFO, CompaniesFound (length (year_records z links)) z)
      \<in> set (snd (builld_disrupted_name_set get (Some ys)))"
    by (rule log_holds_year_lines)
next
  assume h: "get 2019 = Inr r1 \<and> \<not> (400 \<le> status r1 \<and> status r1 < 600) \<and>
    mw_pages (body r1) = Some l1 \<and>
    get 2021 = Inr r2 \<and> \<not> (400 \<le> status r2 \<and> status r2 < 600) \<and>
    mw_pages (body r2) = Some l2 \<and>
    (get 2020 = Inl e' \<or>
     (\<exists>r. get 2020 = Inr r \<and> ((400 \<le> status r \<and> status r < 600) \<or> mw_pages (body r) = None)))"
  note t = three_years_middle_skipped[where get = get and ?r1.0 = r1 and ?l1.0 = l1
      and ?r2.0 = r2 and ?l2.0 = l2 and e = e']
  from h t show "fst (builld_disrupted_name_set get (Some [2019, 2020, 2021])) =
      set (map (\<lambda>n. strip (upper n)) (filter (\<lambda>n. n \<noteq> []) (map get_text (l1 @ l2))))"
    by blast
  from h t show "\<exists>m. (m = NoMwPages 2020 \<or> (\<exists>c. m = HttpSkipping c 2020) \<or>
             (\<exists>e. m = FailedSkipping 2020 e)) \<and>
        snd (builld_disrupted_name_set get (Some [2019, 2020, 2021])) =
          [(INFO, Scraping 2019), (INFO, CompaniesFound (length (year_records 2019 l1)) 2019),
           (INFO, Scraping 2020), (WARNING, m),
           (INFO, Scraping 2021), (INFO, CompaniesFound (length (year_records 2021 l2)) 2021),
           (INFO, SavedRecords (length (year_records 2019 l1 @ year_records 2021 l2)))]"
    by blast
qed

theorem failed_year_is_skipped_witness:
  "example_wiki 2020 = Inl RequestException \<and>
   fst (builld_disrupted_name_set example_wiki (Some [2019, 2020, 2021])) =
     {''ACME CORP'', ''ZETA LTD''}"
proof -
  have a: "example_wiki 2019 = Inr page_2019"
      "\<not> (400 \<le> status page_2019 \<and> status page_2019 < 600)"
      "mw_pages (body page_2019) = Some [ ['' Acme Corp ''], ['' ''] ]"
    by (simp_all add: example_wiki_def page_2019_def)
  have b: "example_wiki 2021 = Inr page_2021"
      "\<not> (400 \<le> status page_2021 \<and> status page_2021 < 600)"
      "mw_pages (body page_2021) = Some [ [''Zeta Ltd''] ]"
    by (simp_all add: example_wiki_def page_2021_def)
  have c: "example_wiki 2020 = Inl RequestException \<or>
      (\<exists>r. example_wiki 2020 = Inr r \<and>
         ((400 \<le> status r \<and> status r < 600) \<or> mw_pages (body r) = None))"
    by (simp add: example_wiki_def)
  have d: "set (map (\<lambda>n. strip (upper n))
        (filter (\<lambda>n. n \<noteq> []) (map get_text ([ ['' Acme Corp ''], ['' ''] ] @ [ [''Zeta Ltd''] ])))) =
      {''ACME CORP'', ''ZETA LTD''}"
    by code_simp
  from failed_year_is_skipped[where get = example_wiki and ?r1.0 = page_2019
      and ?l1.0 = "[ ['' Acme Corp ''], ['' ''] ]" and ?r2.0 = page_2021
      and ?l2.0 = "[ [''Zeta Ltd''] ]" and e' = RequestException] a b c
  have "fst (builld_disrupted_name_set example_wiki (Some [2019, 2020, 2021])) =
      set (map (\<lambda>n. strip (upper n))
        (filter (\<lambda>n. n \<noteq> []) (map get_text ([ ['' Acme Corp ''], ['' ''] ] @ [ [''Zeta Ltd''] ]))))"
    by blast
  with d show ?thesis by (simp add: example_wiki_def)
qed

section \<open>The ticker listing is fetched without a handler\<close>

text \<open>
  Claim C8. An exception of \<^verbatim>\<open>fetch_all_tickers\<close>, raised by the request, by the status
  check or while the listing is decoded and read, is the result of
  \<^verbatim>\<open>build_company_dataset\<close> and of the script: nothing catches it. Every other fetch is
  guarded. \<^verbatim>\<open>fetch_company_metadata\<close> returns nothing when its request raises, when the
  status is an error status, when the body cannot be decoded and when the document
  cannot be read, and the record otherwise; \<^verbatim>\<open>build_company_dataset\<close> keeps exactly the
  rows with a record, and returns its table whenever the listing was read. A listing
  page whose request raises, whose status is an error status or which has no
  \<^verbatim>\<open>mw-pages\<close> element is passed over with a warning, the records collected so far
  unchanged.
\<close>

theorem fetch_all_tickers_unguarded:
  "(tickers_get w = Inl e \<longrightarrow> fetch_all_tickers (tickers_get w) n = Inl e) \<and>
   (tickers_get w = Inr resp \<and> 400 \<le> status resp \<and> status resp < 600 \<longrightarrow>
      fetch_all_tickers (tickers_get w) n = Inl (HTTPError (status resp))) \<and>
   (tickers_get w = Inr resp \<and> \<not> (400 \<le> status resp \<and> status resp < 600) \<and>
    body resp = None \<longrightarrow> fetch_all_tickers (tickers_get w) n = Inl JSONDecodeError) \<and>
   (fetch_all_tickers (tickers_get w) n = Inl e \<longrightarrow> build_company_dataset w n = Inl e) \<and>
   (fetch_all_tickers (tickers_get w) (max_companies a) = Inl e \<longrightarrow> main w a = Inl e) \<and>
   (fetch_all_tickers (tickers_get w) n = Inr tickers \<longrightarrow>
      build_company_dataset w n =
        Inr (DataFrame (company_records (submissions_get w) tickers))) \<and>
   (submissions_get w c = Inl e \<longrightarrow> fetch_company_metadata (submissions_get w) c = None) \<and>
   (submissions_get w c = Inr sresp \<and> 400 \<le> status sresp \<and> status sresp < 600 \<longrightarrow>
      fetch_company_metadata (submissions_get w) c = None) \<and>
   (submissions_get w c = Inr sresp \<and> \<not> (400 \<le> status sresp \<and> status sresp < 600) \<and>
    body sresp = None \<longrightarrow> fetch_company_metadata (submissions_get w) c = None) \<and>
   (submissions_get w c = Inr sresp \<and> \<not> (400 \<le> status sresp \<and> status sresp < 600) \<and>
    body sresp = Some data \<and> metadata_record c data = Inl e \<longrightarrow>
      fetch_company_metadata (submissions_get w) c = None) \<and>
   (submissions_get w c = Inr sresp \<and> \<not> (400 \<le> status sresp \<and> status sresp < 600) \<and>
    body sresp = Some data \<and> metadata_record c data = Inr m \<longrightarrow>
      fetch_company_metadata (submissions_get w) c = Some m) \<and>
   (fetch_company_metadata (submissions_get w) (row_cik row) = None \<longrightarrow>
      company_records (submissions_get w) (row # rest) =
        company_records (submissions_get w) rest) \<and>
   company_records (submissions_get w) ts =
     concat (map (\<lambda>row. case fetch_company_metadata (submissions_get w) (row_cik row) of
                          None \<Rightarrow> []
                        | Some meta \<Rightarrow> [meta\<lparr>ticker := Some (row_ticker row)\<rparr>]) ts) \<and>
   (wiki_get w y = Inl e \<or>
    (\<exists>r. wiki_get w y = Inr r \<and>
         ((400 \<le> status r \<and> status r < 600) \<or> mw_pages (body r) = None)) \<longrightarrow>
      (\<exists>m. \<forall>ys recs lg. scrape_years (wiki_get w) (y # ys) recs lg =
         scrape_years (wiki_get w) ys recs (lg @ [(INFO, Scraping y), (WARNING, m)])))"
proof -
  have fetch: "tickers_get w = Inl e \<longrightarrow> fetch_all_tickers (tickers_get w) n = Inl e"
    by (simp add: fetch_all_tickers_def)
  have stat: "tickers_get w = Inr resp \<and> 400 \<le> status resp \<and> status resp < 600 \<longrightarrow>
      fetch_all_tickers (tickers_get w) n = Inl (HTTPError (status resp))"
    by (simp add: fetch_all_tickers_def raise_for_status_def)
  have dec: "tickers_get w = Inr resp \<and> \<not> (400 \<le> status resp \<and> status resp < 600) \<and>
      body resp = None \<longrightarrow> fetch_all_tickers (tickers_get w) n = Inl JSONDecodeError"
    by (simp add: fetch_all_tickers_def raise_for_status_def resp_json_def)
  have build: "fetch_all_tickers (tickers_get w) n = Inl e \<longrightarrow> build_company_dataset w n = Inl e"
    by (simp add: build_company_dataset_def)
  have script: "fetch_all_tickers (tickers_get w) (max_companies a) = Inl e \<longrightarrow> main w a = Inl e"
    by (simp add: build_company_dataset_def main_def)
  have ok: "fetch_all_tickers (tickers_get w) n = Inr tickers \<longrightarrow>
      build_company_dataset w n =
        Inr (DataFrame (company_records (submissions_get w) tickers))"
    by (simp add: build_company_dataset_def)
  have m1: "submissions_get w c = Inl e \<longrightarrow>
      fetch_company_metadata (submissions_get w) c = None"
    by (simp add: fetch_company_metadata_cases)
  have m2: "submissions_get w c = Inr sresp \<and> 400 \<le> status sresp \<and> status sresp < 600 \<longrightarrow>
      fetch_company_metadata (submissions_get w) c = None"
    by (simp add: fetch_company_metadata_cases)
  have m3: "submissions_get w c = Inr sresp \<and> \<not> (400 \<le> status sresp \<and> status sresp < 600) \<and>
      body sresp = None \<longrightarrow> fetch_company_metadata (submissions_get w) c = None"
    by (simp add: fetch_company_metadata_cases)
  have m4: "submissions_get w c = Inr sresp \<and> \<not> (400 \<le> status sresp \<and> status sresp < 600) \<and>
      body sresp = Some data \<and> metadata_record c data = Inl e \<longrightarrow>
      fetch_company_metadata (submissions_get w) c = None"
    by (simp add: fetch_company_metadata_cases)
  have m5: "submissions_get w c = Inr sresp \<and> \<not> (400 \<le> status sresp \<and> status sresp < 600) \<and>
      body sresp = Some data \<and> metadata_record c data = Inr m \<longrightarrow>
      fetch_company_metadata (submissions_get w) c = Some m"
    by (simp add: fetch_company_metadata_cases)
  have row: "fetch_company_metadata (submissions_get w) (row_cik row) = None \<longrightarrow>
      company_records (submissions_get w) (row # rest) =
        company_records (submissions_get w) rest"
    by simp
  have all_rows: "company_records (submissions_get w) ts =
     concat (map (\<lambda>row. case fetch_company_metadata (submissions_get w) (row_cik row) of
                          None \<Rightarrow> []
                        | Some meta \<Rightarrow> [meta\<lparr>ticker := Some (row_ticker row)\<rparr>]) ts)"
    by (rule company_records_concat)
  have wiki: "wiki_get w y = Inl e \<or>
      (\<exists>r. wiki_get w y = Inr r \<and>
         ((400 \<le> status r \<and> status r < 600) \<or> mw_pages (body r) = None)) \<longrightarrow>
      (\<exists>m. \<forall>ys recs lg. scrape_years (wiki_get w) (y # ys) recs lg =
         scrape_years (wiki_get w) ys recs (lg @ [(INFO, Scraping y), (WARNING, m)]))"
  proof
    assume "wiki_get w y = Inl e \<or>
      (\<exists>r. wiki_get w y = Inr r \<and>
         ((400 \<le> status r \<and> status r < 600) \<or> mw_pages (body r) = None))"
    from scrape_years_skipped[where get = "wiki_get w" and y = y and e = e, OF this]
    show "\<exists>m. \<forall>ys recs lg. scrape_years (wiki_get w) (y # ys) recs lg =
         scrape_years (wiki_get w) ys recs (lg @ [(INFO, Scraping y), (WARNING, m)])"
      by blast
  qed
  from fetch stat dec build script ok m1 m2 m3 m4 m5 row all_rows wiki show ?thesis
    by (intro conjI)
qed

theorem fetch_all_tickers_unguarded_witness:
  "tickers_get offline_world = Inl RequestException \<and>
   fetch_all_tickers (tickers_get offline_world) (max_companies example_args) =
     Inl RequestException \<and>
   main offline_world example_args = Inl RequestException"
proof -
  have h: "tickers_get offline_world = Inl RequestException"
    by (simp add: offline_world_def)
  note t = fetch_all_tickers_unguarded[where w = offline_world and e = RequestException
      and a = example_args and n = "max_companies example_args"]
  from t h have f: "fetch_all_tickers (tickers_get offline_world) (max_companies example_args) =
      Inl RequestException" by blast
  with t have "main offline_world example_args = Inl RequestException" by blast
  with h f show ?thesis by simp
qed

section \<open>A table without rows\<close>

text \<open>
  The claim that every company table without rows makes \<^verbatim>\<open>label_companies\<close> raise
  \<^verbatim>\<open>ZeroDivisionError\<close> fails: on a table without rows whose column \<^verbatim>\<open>name\<close> is a float64
  column, as \<^verbatim>\<open>pd.DataFrame({"name": []})\<close> is, the sum of the labels is a numpy float,
  the division gives \<^verbatim>\<open>nan\<close>, and the function returns the table with the new column.
\<close>

theorem label_companies_float_column_returns:
  "label_companies \<lparr>columns = [''name''], name_dtype = Float64, rows = []\<rparr> {''ACME''} =
     Inr \<lparr>columns = [''name'', ''disrupted''], name_dtype = Float64, rows = []\<rparr> \<and>
   label_companies \<lparr>columns = [''name''], name_dtype = Float64, rows = []\<rparr> {''ACME''} \<noteq>
     Inl ZeroDivisionError"
  by (simp add: label_companies_def label_dtype_def)

text \<open>
  Claim C9. (amended) \<^verbatim>\<open>label_companies\<close> is not total on company tables without rows, and
  what it does there depends on the column \<^verbatim>\<open>name\<close>. When it is an object column, the
  sum of the labels is the Python int 0 and the log line's division by the number of
  rows raises \<^verbatim>\<open>ZeroDivisionError\<close>. When the column is missing, the lookup raises
  \<^verbatim>\<open>KeyError\<close>; when it is a column of strings, the division raises \<^verbatim>\<open>TypeError\<close>. When it
  is an int64 or float64 column, the sum is a numpy number, the division does not
  raise, and the table is returned with the new column and no row.
\<close>

theorem label_companies_no_rows:
  assumes "rows T = []"
  shows "label_companies T S =
     (if ''name'' \<notin> set (columns T) then Inl (KeyError ''name'')
      else if name_dtype T = Object then Inl ZeroDivisionError
      else if name_dtype T = Str then Inl TypeError
      else Inr \<lparr>columns = (if ''disrupted'' \<in> set (columns T) then columns T
                            else columns T @ [''disrupted'']),
                name_dtype = name_dtype T, rows = []\<rparr>)"
proof (cases "''name'' \<in> set (columns T)")
  case False
  then show ?thesis by (simp add: label_companies_def)
next
  case True
  have c: "collect (\<lambda>c. is_disrupted S (name c)) (rows T) = Inr []"
    using assms by simp
  have dt: "label_dtype T = name_dtype T" using assms by (simp add: label_dtype_def)
  show ?thesis
    unfolding label_companies_unfold[OF True c] dt
    using True assms by (cases "name_dtype T") simp_all
qed

theorem label_companies_no_rows_witness:
  "rows (empty_frame Object) = [] \<and>
   label_companies (empty_frame Object) example_names = Inl ZeroDivisionError \<and>
   label_companies (empty_frame Str) example_names = Inl TypeError \<and>
   label_companies (DataFrame []) example_names = Inl (KeyError ''name'') \<and>
   label_companies (empty_frame Int64) example_names =
     Inr \<lparr>columns = company_columns @ [''disrupted''], name_dtype = Int64, rows = []\<rparr>"
proof -
  have h: "rows (empty_frame d) = []" "rows (DataFrame []) = []" for d
    by (simp_all add: empty_frame_def DataFrame_def)
  have n: "''name'' \<in> set (columns (empty_frame d))"
    "''disrupted'' \<notin> set (columns (empty_frame d))"
    "''name'' \<notin> set (columns (DataFrame []))" for d
    by (simp_all add: empty_frame_def company_columns_def DataFrame_def)
  from label_companies_no_rows[OF h(1), of Object example_names]
       label_companies_no_rows[OF h(1), of Str example_names]
       label_companies_no_rows[OF h(1), of Int64 example_names]
       label_companies_no_rows[OF h(2), of example_names]
  show ?thesis using h n by (simp add: empty_frame_def)
qed

end
